theory Spec2Isabelle
  imports Complex_Main
begin

section \<open>Python values\<close>

text \<open>
  The values that cross the tool boundary are JSON values: the arguments come from
  \<^verbatim>\<open>json.loads\<close> and the results go to \<^verbatim>\<open>json.dumps\<close>. A Python \<^verbatim>\<open>dict\<close> is an
  association list in insertion order. A Python \<^verbatim>\<open>str\<close> is modelled by the bytes of its
  UTF-8 encoding, so the Chinese literals of the source are byte lists; only equality,
  concatenation and substring tests are made on them, and those agree on both readings.
\<close>

datatype json =
    JNull
  | JBool bool
  | JInt int
  | JFloat real
  | JStr string
  | JArr "json list"
  | JObj "(string \<times> json) list"

text \<open>
  An exception object: its class name and the text \<^verbatim>\<open>str(e)\<close>. Every exception of the
  model is an instance of \<^verbatim>\<open>Exception\<close>, the class the handlers of the source catch;
  \<^verbatim>\<open>KeyboardInterrupt\<close> and \<^verbatim>\<open>SystemExit\<close> are raised by no code modelled here.
\<close>

datatype pyexc = PyExc string string

fun exc_str :: "pyexc \<Rightarrow> string" where
  "exc_str (PyExc cls msg) = msg"

text \<open>\<^verbatim>\<open>try: body except Exception as e: handler(e)\<close> on computations that return a value.\<close>

definition try_except :: "pyexc + 'a \<Rightarrow> (pyexc \<Rightarrow> pyexc + 'a) \<Rightarrow> pyexc + 'a" where
  "try_except body handler = (case body of Inl e \<Rightarrow> handler e | Inr v \<Rightarrow> Inr v)"

section \<open>function\_tools.py\<close>

subsection \<open>String literals of the module\<close>

definition unknown_function_text :: string where
  "unknown_function_text =
     [CHR 0xE6, CHR 0x9C, CHR 0xAA, CHR 0xE7, CHR 0x9F, CHR 0xA5, CHR 0xE5, CHR 0x87,
      CHR 0xBD, CHR 0xE6, CHR 0x95, CHR 0xB0] @ '': ''"

definition execution_error_text :: string where
  "execution_error_text =
     [CHR 0xE5, CHR 0x87, CHR 0xBD, CHR 0xE6, CHR 0x95, CHR 0xB0, CHR 0xE6, CHR 0x89,
      CHR 0xA7, CHR 0xE8, CHR 0xA1, CHR 0x8C, CHR 0xE9, CHR 0x94, CHR 0x99, CHR 0xE8,
      CHR 0xAF, CHR 0xAF] @ '': ''"

definition goodbye_text :: string where
  "goodbye_text =
     [CHR 0xE5, CHR 0xA5, CHR 0xBD, CHR 0xE7, CHR 0x9A, CHR 0x84, CHR 0xEF, CHR 0xBC,
      CHR 0x8C, CHR 0xE5, CHR 0x86, CHR 0x8D, CHR 0xE8, CHR 0xA7, CHR 0x81, CHR 0xEF,
      CHR 0xBC, CHR 0x81, CHR 0xE7, CHR 0xA5, CHR 0x9D, CHR 0xE4, CHR 0xBD, CHR 0xA0,
      CHR 0xE6, CHR 0x9C, CHR 0x89, CHR 0xE7, CHR 0xBE, CHR 0x8E, CHR 0xE5, CHR 0xA5,
      CHR 0xBD, CHR 0xE7, CHR 0x9A, CHR 0x84, CHR 0xE4, CHR 0xB8, CHR 0x80, CHR 0xE5,
      CHR 0xA4, CHR 0xA9, CHR 0xEF, CHR 0xBC, CHR 0x81]"

definition beijing_text :: string where
  "beijing_text = [CHR 0xE5, CHR 0x8C, CHR 0x97, CHR 0xE4, CHR 0xBA, CHR 0xAC]"

definition today_text :: string where
  "today_text = [CHR 0xE4, CHR 0xBB, CHR 0x8A, CHR 0xE5, CHR 0xA4, CHR 0xA9]"

definition weather_conditions :: "string list" where
  "weather_conditions =
     [[CHR 0xE6, CHR 0x99, CHR 0xB4],
      [CHR 0xE5, CHR 0xA4, CHR 0x9A, CHR 0xE4, CHR 0xBA, CHR 0x91],
      [CHR 0xE9, CHR 0x98, CHR 0xB4],
      [CHR 0xE5, CHR 0xB0, CHR 0x8F, CHR 0xE9, CHR 0x9B, CHR 0xA8],
      [CHR 0xE5, CHR 0xA4, CHR 0xA7, CHR 0xE9, CHR 0x9B, CHR 0xA8],
      [CHR 0xE9, CHR 0x9B, CHR 0xAA]]"

definition wind_names :: "string list" where
  "wind_names =
     [[CHR 0xE5, CHR 0xBE, CHR 0xAE, CHR 0xE9, CHR 0xA3, CHR 0x8E],
      [CHR 0xE5, CHR 0x92, CHR 0x8C, CHR 0xE9, CHR 0xA3, CHR 0x8E],
      [CHR 0xE6, CHR 0xB8, CHR 0x85, CHR 0xE9, CHR 0xA3, CHR 0x8E]]"

definition suggestion_text :: string where
  "suggestion_text =
     [CHR 0xE9, CHR 0x80, CHR 0x82, CHR 0xE5, CHR 0x90, CHR 0x88, CHR 0xE5, CHR 0x87,
      CHR 0xBA, CHR 0xE8, CHR 0xA1, CHR 0x8C, CHR 0xEF, CHR 0xBC, CHR 0x8C, CHR 0xE8,
      CHR 0xAE, CHR 0xB0, CHR 0xE5, CHR 0xBE, CHR 0x97, CHR 0xE5, CHR 0xB8, CHR 0xA6,
      CHR 0xE6, CHR 0x8A, CHR 0x8A, CHR 0xE4, CHR 0xBC, CHR 0x9E]"

definition menu_missing_text :: string where
  "menu_missing_text =
     [CHR 0xE8, CHR 0x8F, CHR 0x9C, CHR 0xE5, CHR 0x8D, CHR 0x95, CHR 0xE6, CHR 0x96,
      CHR 0x87, CHR 0xE4, CHR 0xBB, CHR 0xB6, CHR 0xE6, CHR 0x9C, CHR 0xAA, CHR 0xE6,
      CHR 0x89, CHR 0xBE, CHR 0xE5, CHR 0x88, CHR 0xB0]"

definition books_missing_text :: string where
  "books_missing_text =
     [CHR 0xE4, CHR 0xB9, CHR 0xA6, CHR 0xE7, CHR 0xB1, CHR 0x8D, CHR 0xE6, CHR 0x95,
      CHR 0xB0, CHR 0xE6, CHR 0x8D, CHR 0xAE, CHR 0xE5, CHR 0xBA, CHR 0x93, CHR 0xE6,
      CHR 0x9C, CHR 0xAA, CHR 0xE6, CHR 0x89, CHR 0xBE, CHR 0xE5, CHR 0x88, CHR 0xB0]"

subsection \<open>What the tools read from outside\<close>

text \<open>
  The tools read the clock, the random generator and two data files. These readings are
  the fields of \<open>tool_env\<close>. A data file is missing (\<^verbatim>\<open>FileNotFoundError\<close>), or opening
  or parsing it raises something else, or it yields a JSON value. The filter loops that
  \<^verbatim>\<open>query_menu\<close> and \<^verbatim>\<open>search_books\<close> run over a loaded file are parameters as well:
  they return a result or raise, and nothing below depends on which.
\<close>

datatype data_file = FileNotFound | LoadRaises pyexc | Loaded json

record tool_env =
  now_text :: string
  draws :: "nat \<Rightarrow> nat"
  menu_file :: data_file
  menu_filter :: "json \<Rightarrow> json \<Rightarrow> json \<Rightarrow> json \<Rightarrow> json \<Rightarrow> pyexc + json"
  books_file :: data_file
  books_filter :: "json \<Rightarrow> json \<Rightarrow> json \<Rightarrow> json \<Rightarrow> json \<Rightarrow> pyexc + json"

text \<open>\<^verbatim>\<open>random.randint(a, b)\<close> and \<^verbatim>\<open>random.choice(xs)\<close> on a raw draw \<open>r\<close>.\<close>

definition randint :: "int \<Rightarrow> int \<Rightarrow> nat \<Rightarrow> int" where
  "randint a b r = a + int (r mod nat (b - a + 1))"

definition choice :: "'a list \<Rightarrow> nat \<Rightarrow> 'a" where
  "choice xs r = xs ! (r mod length xs)"

subsection \<open>Keyword calls\<close>

text \<open>
  \<^verbatim>\<open>func(**arguments)\<close>: every key must be a parameter name of \<^verbatim>\<open>func\<close>, else the
  interpreter raises \<^verbatim>\<open>TypeError\<close> before the body runs; a parameter without a key
  takes its default. The keys of an object that \<^verbatim>\<open>json.loads\<close> built are distinct.
\<close>

definition unexpected_keyword :: "string \<Rightarrow> string \<Rightarrow> pyexc" where
  "unexpected_keyword fname k =
     PyExc ''TypeError''
       (fname @ ''() got an unexpected keyword argument '' @ [CHR 0x27] @ k @ [CHR 0x27])"

definition bind_keywords ::
  "string \<Rightarrow> string list \<Rightarrow> (string \<times> json) list \<Rightarrow> pyexc + (string \<Rightarrow> json option)" where
  "bind_keywords fname params kwargs =
     (case filter (\<lambda>kv. fst kv \<notin> set params) kwargs of
        [] \<Rightarrow> Inr (map_of kwargs)
      | kv # _ \<Rightarrow> Inl (unexpected_keyword fname (fst kv)))"

definition arg_or :: "(string \<Rightarrow> json option) \<Rightarrow> string \<Rightarrow> json \<Rightarrow> json" where
  "arg_or bound p dflt = (case bound p of None \<Rightarrow> dflt | Some v \<Rightarrow> v)"

type_synonym py_function = "tool_env \<Rightarrow> (string \<times> json) list \<Rightarrow> pyexc + json"

subsection \<open>The four tools\<close>

definition end_conversation :: py_function where
  "end_conversation env kwargs =
     (case bind_keywords ''end_conversation'' [] kwargs of
        Inl e \<Rightarrow> Inl e
      | Inr bound \<Rightarrow>
          Inr (JObj [(''status'', JStr ''conversation_ended''),
                     (''message'', JStr goodbye_text),
                     (''timestamp'', JStr (now_text env))]))"

definition get_weather :: py_function where
  "get_weather env kwargs =
     (case bind_keywords ''get_weather'' [''location'', ''date''] kwargs of
        Inl e \<Rightarrow> Inl e
      | Inr bound \<Rightarrow>
          Inr (JObj [(''location'', arg_or bound ''location'' (JStr beijing_text)),
                     (''date'', arg_or bound ''date'' (JStr today_text)),
                     (''condition'', JStr (choice (take 4 weather_conditions) (draws env 0))),
                     (''temperature'', JInt (randint 15 30 (draws env 1))),
                     (''temperature_low'', JInt (randint 10 20 (draws env 2))),
                     (''humidity'', JInt (randint 40 80 (draws env 3))),
                     (''wind'', JStr (choice wind_names (draws env 4))),
                     (''aqi'', JInt (randint 30 150 (draws env 5))),
                     (''suggestion'', JStr suggestion_text)]))"

definition query_menu :: py_function where
  "query_menu env kwargs =
     (case bind_keywords ''query_menu''
             [''category'', ''keyword'', ''spicy_level'', ''recommend_only''] kwargs of
        Inl e \<Rightarrow> Inl e
      | Inr bound \<Rightarrow>
          (case menu_file env of
             FileNotFound \<Rightarrow> Inr (JObj [(''error'', JStr menu_missing_text)])
           | LoadRaises e \<Rightarrow> Inl e
           | Loaded menu_data \<Rightarrow>
               menu_filter env menu_data
                 (arg_or bound ''category'' JNull) (arg_or bound ''keyword'' JNull)
                 (arg_or bound ''spicy_level'' JNull)
                 (arg_or bound ''recommend_only'' (JBool False))))"

definition search_books :: py_function where
  "search_books env kwargs =
     (case bind_keywords ''search_books''
             [''query'', ''category'', ''author'', ''min_rating''] kwargs of
        Inl e \<Rightarrow> Inl e
      | Inr bound \<Rightarrow>
          (case books_file env of
             FileNotFound \<Rightarrow> Inr (JObj [(''error'', JStr books_missing_text)])
           | LoadRaises e \<Rightarrow> Inl e
           | Loaded books_data \<Rightarrow>
               books_filter env books_data
                 (arg_or bound ''query'' JNull) (arg_or bound ''category'' JNull)
                 (arg_or bound ''author'' JNull) (arg_or bound ''min_rating'' JNull)))"

subsection \<open>The dispatcher\<close>

definition FUNCTION_MAP :: "string \<Rightarrow> py_function option" where
  "FUNCTION_MAP =
     map_of [(''end_conversation'', end_conversation),
             (''get_weather'', get_weather),
             (''query_menu'', query_menu),
             (''search_books'', search_books)]"

text \<open>
  \<^verbatim>\<open>func(**arguments)\<close> with \<^verbatim>\<open>arguments\<close> any JSON value: a mapping is spread into
  keywords, anything else is a \<^verbatim>\<open>TypeError\<close> that names the function and the type of
  the value. The function is known by the name under which the registry holds it.
\<close>

fun type_name :: "json \<Rightarrow> string" where
  "type_name JNull = ''NoneType''"
| "type_name (JBool b) = ''bool''"
| "type_name (JInt i) = ''int''"
| "type_name (JFloat x) = ''float''"
| "type_name (JStr s) = ''str''"
| "type_name (JArr xs) = ''list''"
| "type_name (JObj kvs) = ''dict''"

definition not_a_mapping :: "string \<Rightarrow> json \<Rightarrow> pyexc" where
  "not_a_mapping fname arguments =
     PyExc ''TypeError''
       (''function_tools.'' @ fname @ ''() argument after ** must be a mapping, not '' @
        type_name arguments)"

definition call_with :: "string \<Rightarrow> py_function \<Rightarrow> tool_env \<Rightarrow> json \<Rightarrow> pyexc + json" where
  "call_with fname func env arguments =
     (case arguments of
        JObj kwargs \<Rightarrow> func env kwargs
      | _ \<Rightarrow> Inl (not_a_mapping fname arguments))"

text \<open>
  The function name is \<^verbatim>\<open>data.get("name")\<close>: a string, or \<^verbatim>\<open>None\<close> when the event has
  no name. \<open>name_text\<close> is what the f-string prints for it.
\<close>

definition name_text :: "string option \<Rightarrow> string" where
  "name_text function_name = (case function_name of None \<Rightarrow> ''None'' | Some n \<Rightarrow> n)"

definition lookup_function :: "string option \<Rightarrow> py_function option" where
  "lookup_function function_name =
     (case function_name of None \<Rightarrow> None | Some n \<Rightarrow> FUNCTION_MAP n)"

definition unknown_function_result :: "string option \<Rightarrow> json" where
  "unknown_function_result function_name =
     JObj [(''error'', JStr (unknown_function_text @ name_text function_name))]"

definition execution_error_result :: "pyexc \<Rightarrow> json" where
  "execution_error_result e = JObj [(''error'', JStr (execution_error_text @ exc_str e))]"

definition execute_function :: "tool_env \<Rightarrow> string option \<Rightarrow> json \<Rightarrow> pyexc + json" where
  "execute_function env function_name arguments =
     (case lookup_function function_name of
        None \<Rightarrow> Inr (unknown_function_result function_name)
      | Some func \<Rightarrow>
          try_except (call_with (name_text function_name) func env arguments)
            (\<lambda>e. Inr (execution_error_result e)))"

section \<open>The engines\<close>

subsection \<open>Effects, outcomes and shared state\<close>

text \<open>
  A frame is the list of signed 16-bit samples of one chunk read from the microphone.
  An outbound protocol event is recorded by its purpose and payload (the audio before
  its base64 encoding, the tool result before \<^verbatim>\<open>json.dumps\<close>).
\<close>

type_synonym frame = "int list"

datatype outmsg =
    SessionUpdate
  | AppendAudio frame
  | UserMessage string
  | FunctionCallOutput "string option" json
  | ResponseCreate "string list"
  | ResponseCancel

text \<open>
  What an engine does to the outside, in order: an event that \<^verbatim>\<open>ws.send\<close> accepted, a
  chunk that \<^verbatim>\<open>output_stream.write\<close> accepted, the three calls of the stream rebuild, the
  grace period \<^verbatim>\<open>asyncio.sleep(2)\<close>, and for the local segmenter the end of an utterance
  (the call of \<^verbatim>\<open>_process_speech\<close> with the buffer of that moment) and the call of the
  transcriber. The pacing sleeps of the polling loops are not recorded.
\<close>

datatype effect =
    Sent outmsg
  | Written string
  | StopStream
  | CloseStream
  | OpenStream
  | Slept nat
  | SpeechEnded "frame list"
  | Transcribe "int list"

fun is_speech_ended :: "effect \<Rightarrow> bool" where
  "is_speech_ended (SpeechEnded buf) = True"
| "is_speech_ended eff = False"

fun is_transcribe :: "effect \<Rightarrow> bool" where
  "is_transcribe (Transcribe audio) = True"
| "is_transcribe eff = False"

text \<open>
  A statement or loop body ends normally, raises, or leaves its function or loop
  (\<^verbatim>\<open>return\<close>, \<^verbatim>\<open>break\<close>). The state reached is kept in each case: what was assigned
  or sent before an exception stays assigned and sent.
\<close>

datatype 's outcome = Normal 's | Raised pyexc 's | Returned 's

fun state_of :: "'s outcome \<Rightarrow> 's" where
  "state_of (Normal s) = s"
| "state_of (Raised e s) = s"
| "state_of (Returned s) = s"

definition and_then :: "'s outcome \<Rightarrow> ('s \<Rightarrow> 's outcome) \<Rightarrow> 's outcome" where
  "and_then r f =
     (case r of Normal s \<Rightarrow> f s | Raised e s \<Rightarrow> Raised e s | Returned s \<Rightarrow> Returned s)"

text \<open>
  The fields every engine has. The first four are attributes of the Python object
  (\<open>output_stream\<close> is \<open>None\<close> or counts how often the stream was opened). The others are
  the outside: whether the \<open>k\<close>-th call of \<^verbatim>\<open>ws.send\<close> and the \<open>k\<close>-th call on the output
  device raise, the exception such a call raises when it does, how many calls were made,
  and the effects so far.
\<close>

record engine =
  is_running :: bool
  is_ai_speaking :: bool
  session_id :: "string option"
  output_stream :: "nat option"
  ws_raises :: "nat \<Rightarrow> bool"
  ws_error :: "nat \<Rightarrow> pyexc"
  ws_calls :: nat
  dev_raises :: "nat \<Rightarrow> bool"
  dev_error :: "nat \<Rightarrow> pyexc"
  dev_calls :: nat
  trace :: "effect list"

definition ws_send :: "outmsg \<Rightarrow> 'a engine_scheme \<Rightarrow> 'a engine_scheme outcome" where
  "ws_send m s =
     (if ws_raises s (ws_calls s)
      then Raised (ws_error s (ws_calls s)) (s\<lparr>ws_calls := Suc (ws_calls s)\<rparr>)
      else Normal (s\<lparr>ws_calls := Suc (ws_calls s), trace := trace s @ [Sent m]\<rparr>))"

definition dev_call :: "effect \<Rightarrow> 'a engine_scheme \<Rightarrow> 'a engine_scheme outcome" where
  "dev_call eff s =
     (if dev_raises s (dev_calls s)
      then Raised (dev_error s (dev_calls s)) (s\<lparr>dev_calls := Suc (dev_calls s)\<rparr>)
      else Normal (s\<lparr>dev_calls := Suc (dev_calls s), trace := trace s @ [eff]\<rparr>))"

text \<open>
  The engines of realtime\_local\_asr.py and waste/tempCodeRunnerFile.py add the two
  interruption flags.
\<close>

record client = engine +
  interrupt_flag :: bool
  drop_audio_until_cancelled :: bool

subsection \<open>Inbound events\<close>

text \<open>
  The decoded message \<^verbatim>\<open>data\<close>, by the fields the handlers read. A field that is
  absent is \<open>None\<close>; a field that is present has the type the protocol gives it. The
  two library calls made on field contents are carried with the event as their
  outcomes: \<open>ev_audio\<close> is what \<^verbatim>\<open>base64.b64decode\<close> does on \<open>ev_delta\<close>, and
  \<open>ev_arguments\<close> is what \<^verbatim>\<open>json.loads\<close> does on the arguments string.
\<close>

record event =
  ev_type :: "string option"
  ev_session_id :: "string option"
  ev_delta :: string
  ev_audio :: "pyexc + string"
  ev_call_id :: "string option"
  ev_name :: "string option"
  ev_arguments :: "pyexc + json"
  ev_error_message :: "string option"

definition unknown_error_text :: string where
  "unknown_error_text =
     [CHR 0xE6, CHR 0x9C, CHR 0xAA, CHR 0xE7, CHR 0x9F, CHR 0xA5, CHR 0xE9, CHR 0x94,
      CHR 0x99, CHR 0xE8, CHR 0xAF, CHR 0xAF]"

text \<open>Python's \<^verbatim>\<open>sub in s\<close> on strings.\<close>

fun starts_with :: "string \<Rightarrow> string \<Rightarrow> bool" where
  "starts_with [] s = True"
| "starts_with (c # cs) [] = False"
| "starts_with (c # cs) (d # ds) = (c = d \<and> starts_with cs ds)"

fun str_in :: "string \<Rightarrow> string \<Rightarrow> bool" where
  "str_in sub [] = (sub = [])"
| "str_in sub (d # ds) = (starts_with sub (d # ds) \<or> str_in sub ds)"

text \<open>
  \<^verbatim>\<open>error.get('message', ...)\<close> with its default, and the test that the error branch
  of realtime\_local\_asr.py makes on the message.
\<close>

definition error_message :: "event \<Rightarrow> string" where
  "error_message e =
     (case ev_error_message e of None \<Rightarrow> unknown_error_text | Some m \<Rightarrow> m)"

definition is_cancellation_failure :: "string \<Rightarrow> bool" where
  "is_cancellation_failure error_msg =
     (str_in ''Cancellation failed'' error_msg \<or> str_in ''no active response'' error_msg)"

subsection \<open>Branches the two handlers share\<close>

text \<open>The \<^verbatim>\<open>response.audio.delta\<close> branch, the same text in both files.\<close>

definition audio_delta :: "event \<Rightarrow> 'a client_scheme \<Rightarrow> 'a client_scheme outcome" where
  "audio_delta e s =
     (if drop_audio_until_cancelled s then Normal s
      else
        (let s1 = s\<lparr>is_ai_speaking := True\<rparr> in
         if ev_delta e \<noteq> [] \<and> output_stream s1 \<noteq> None then
           (case ev_audio e of
              Inl exc \<Rightarrow> Raised exc s1
            | Inr audio_data \<Rightarrow> Normal (state_of (dev_call (Written audio_data) s1)))
         else Normal s1))"

text \<open>
  The \<^verbatim>\<open>response.function_call_arguments.done\<close> branch, the same text in both files;
  \<open>sfr\<close> is the \<^verbatim>\<open>_send_function_result\<close> of the class.
\<close>

definition function_call_done ::
  "(string option \<Rightarrow> json \<Rightarrow> 'a client_scheme \<Rightarrow> 'a client_scheme outcome) \<Rightarrow>
   tool_env \<Rightarrow> event \<Rightarrow> 'a client_scheme \<Rightarrow> 'a client_scheme outcome" where
  "function_call_done sfr tenv e s =
     (let call_id = ev_call_id e;
          function_name = ev_name e;
          on_exception = (\<lambda>exc s'. sfr call_id (JObj [(''error'', JStr (exc_str exc))]) s')
      in
      case ev_arguments e of
        Inl exc \<Rightarrow> on_exception exc s
      | Inr arguments \<Rightarrow>
          (case execute_function tenv function_name arguments of
             Inl exc \<Rightarrow> on_exception exc s
           | Inr result \<Rightarrow>
               if function_name = Some ''end_conversation'' then
                 (case sfr call_id result s of
                    Normal s1 \<Rightarrow>
                      Returned (s1\<lparr>is_running := False, trace := trace s1 @ [Slept 2]\<rparr>)
                  | Raised exc s1 \<Rightarrow> on_exception exc s1
                  | Returned s1 \<Rightarrow> Returned s1)
               else
                 (case sfr call_id result s of
                    Raised exc s1 \<Rightarrow> on_exception exc s1
                  | r \<Rightarrow> r)))"

subsection \<open>realtime\_local\_asr.py: class RealtimeClient\<close>

definition send_function_result ::
  "string option \<Rightarrow> json \<Rightarrow> 'a client_scheme \<Rightarrow> 'a client_scheme outcome" where
  "send_function_result call_id result s =
     and_then
       (ws_send (FunctionCallOutput call_id result) (s\<lparr>drop_audio_until_cancelled := False\<rparr>))
       (ws_send (ResponseCreate []))"

definition handle_message ::
  "tool_env \<Rightarrow> event \<Rightarrow> 'a client_scheme \<Rightarrow> 'a client_scheme outcome" where
  "handle_message tenv e s =
     (let event_type = ev_type e in
      if event_type = Some ''session.created'' then Normal (s\<lparr>session_id := ev_session_id e\<rparr>)
      else if event_type = Some ''session.updated'' then Normal s
      else if event_type = Some ''input_audio_buffer.speech_started'' then Normal s
      else if event_type = Some ''input_audio_buffer.speech_stopped'' then Normal s
      else if event_type = Some ''conversation.item.input_audio_transcription.completed''
        then Normal s
      else if event_type = Some ''input_audio_buffer.committed'' then Normal s
      else if event_type = Some ''response.created'' then Normal s
      else if event_type = Some ''response.done'' then Normal (s\<lparr>is_ai_speaking := False\<rparr>)
      else if event_type = Some ''response.text.delta'' then Normal s
      else if event_type = Some ''response.text.done'' then Normal s
      else if event_type = Some ''response.audio.delta'' then audio_delta e s
      else if event_type = Some ''response.audio.done''
        then Normal (s\<lparr>is_ai_speaking := False\<rparr>)
      else if event_type = Some ''response.function_call_arguments.delta'' then Normal s
      else if event_type = Some ''response.function_call_arguments.done''
        then function_call_done send_function_result tenv e s
      else if event_type = Some ''response.cancelled''
        then Normal (s\<lparr>is_ai_speaking := False, drop_audio_until_cancelled := False\<rparr>)
      else if event_type = Some ''error'' then
        (let error_msg = error_message e in
         if is_cancellation_failure error_msg
         then Normal (s\<lparr>drop_audio_until_cancelled := False\<rparr>)
         else Normal s)
      else Normal s)"

text \<open>
  \<^verbatim>\<open>async for message in self.ws\<close>: the events are handled one after the other until
  the stream ends, the end-conversation branch returns, or a branch raises into the
  outer handler, which prints and leaves.
\<close>

fun handle_messages :: "tool_env \<Rightarrow> event list \<Rightarrow> 'a client_scheme \<Rightarrow> 'a client_scheme" where
  "handle_messages tenv [] s = s"
| "handle_messages tenv (e # es) s =
     (case handle_message tenv e s of
        Normal s' \<Rightarrow> handle_messages tenv es s'
      | Raised exc s' \<Rightarrow> s'
      | Returned s' \<Rightarrow> s')"

text \<open>One pass of the capture loop \<^verbatim>\<open>start_audio_input\<close> on the outcome of the read.\<close>

definition capture_step ::
  "pyexc + frame \<Rightarrow> 'a engine_scheme \<Rightarrow> 'a engine_scheme outcome" where
  "capture_step rd s =
     (case rd of
        Inl exc \<Rightarrow> Raised exc s
      | Inr audio_data \<Rightarrow>
          if \<not> is_ai_speaking s then ws_send (AppendAudio audio_data) s else Normal s)"

fun start_audio_input :: "(pyexc + frame) list \<Rightarrow> 'a engine_scheme \<Rightarrow> 'a engine_scheme" where
  "start_audio_input [] s = s"
| "start_audio_input (rd # rds) s =
     (if is_running s then
        (case capture_step rd s of
           Normal s' \<Rightarrow> start_audio_input rds s'
         | Raised exc s' \<Rightarrow> s'
         | Returned s' \<Rightarrow> s')
      else s)"

text \<open>
  \<^verbatim>\<open>keyboard_listener\<close>, the same text in both files. The thread \<^verbatim>\<open>listen_keyboard\<close>
  raises the interrupt flag on a line of input while the AI speaks; the polling loop
  handles a raised flag. The rebuild of the output stream sits in one \<^verbatim>\<open>try\<close>: the
  first of its three calls that raises ends it.
\<close>

definition enter_pressed :: "'a client_scheme \<Rightarrow> 'a client_scheme" where
  "enter_pressed s = (if is_ai_speaking s then s\<lparr>interrupt_flag := True\<rparr> else s)"

definition rebuild_output_stream :: "'a engine_scheme \<Rightarrow> 'a engine_scheme" where
  "rebuild_output_stream s =
     (case dev_call StopStream s of
        Normal s1 \<Rightarrow>
          (case dev_call CloseStream s1 of
             Normal s2 \<Rightarrow>
               (case dev_call OpenStream s2 of
                  Normal s3 \<Rightarrow>
                    s3\<lparr>output_stream := map_option Suc (output_stream s3)\<rparr>
                | r3 \<Rightarrow> state_of r3)
           | r2 \<Rightarrow> state_of r2)
      | r1 \<Rightarrow> state_of r1)"

definition send_cancel :: "'a client_scheme \<Rightarrow> 'a client_scheme" where
  "send_cancel s =
     (case ws_send ResponseCancel s of
        Raised exc s' \<Rightarrow> s'\<lparr>drop_audio_until_cancelled := False\<rparr>
      | r \<Rightarrow> state_of r)"

definition handle_interrupt :: "'a client_scheme \<Rightarrow> 'a client_scheme" where
  "handle_interrupt s =
     (let s1 = s\<lparr>drop_audio_until_cancelled := True, is_ai_speaking := False\<rparr>;
          s2 = (if output_stream s1 \<noteq> None then rebuild_output_stream s1 else s1);
          s3 = send_cancel s2
      in s3\<lparr>interrupt_flag := False\<rparr>)"

definition keyboard_poll :: "'a client_scheme \<Rightarrow> 'a client_scheme" where
  "keyboard_poll s =
     (if is_running s then (if interrupt_flag s then handle_interrupt s else s) else s)"

text \<open>
  The three tasks and the keyboard thread run interleaved; an engine step is one
  inbound message, one frame read, one pass of the polling loop or one line of input.
\<close>

datatype action =
    Inbound tool_env event
  | Captured "pyexc + frame"
  | Poll
  | Enter

fun client_step :: "action \<Rightarrow> client \<Rightarrow> client" where
  "client_step (Inbound tenv e) s = state_of (handle_message tenv e s)"
| "client_step (Captured rd) s = state_of (capture_step rd s)"
| "client_step Poll s = keyboard_poll s"
| "client_step Enter s = enter_pressed s"

fun client_run :: "action list \<Rightarrow> client \<Rightarrow> client" where
  "client_run [] s = s"
| "client_run (a # as) s = client_run as (client_step a s)"

text \<open>
  The object after \<^verbatim>\<open>__init__\<close>, and at the moment \<^verbatim>\<open>run\<close> starts the tasks when
  the set-up raised nothing: the configuration sent, the output stream open.
\<close>

definition new_client ::
  "(nat \<Rightarrow> bool) \<Rightarrow> (nat \<Rightarrow> pyexc) \<Rightarrow> (nat \<Rightarrow> bool) \<Rightarrow> (nat \<Rightarrow> pyexc) \<Rightarrow> client" where
  "new_client ws ws_exc dev dev_exc =
     \<lparr>is_running = False, is_ai_speaking = False, session_id = None, output_stream = None,
      ws_raises = ws, ws_error = ws_exc, ws_calls = 0,
      dev_raises = dev, dev_error = dev_exc, dev_calls = 0, trace = [],
      interrupt_flag = False, drop_audio_until_cancelled = False\<rparr>"

definition started_client ::
  "(nat \<Rightarrow> bool) \<Rightarrow> (nat \<Rightarrow> pyexc) \<Rightarrow> (nat \<Rightarrow> bool) \<Rightarrow> (nat \<Rightarrow> pyexc) \<Rightarrow> client" where
  "started_client ws ws_exc dev dev_exc =
     (new_client ws ws_exc dev dev_exc)
       \<lparr>is_running := True, output_stream := Some 0, ws_calls := 1, dev_calls := 1,
        trace := [Sent SessionUpdate, OpenStream]\<rparr>"

text \<open>
  \<^verbatim>\<open>run\<close> gathers three tasks, and \<open>client_step\<close> does not say which of them still
  run. A session adds that. The handler task ends when its loop returns or raises into
  its outer handler; a message that arrives afterwards is handled by nobody. The capture
  task tests \<open>is_running\<close> at the head of its loop, before the read: a frame whose read
  was under way when the flag was cleared is still handled, and the task ends at the
  next test or when a pass breaks. The polling loop tests the flag on every pass.
\<close>

record session = client +
  handling :: bool
  capturing :: bool




subsection \<open>waste/tempCodeRunnerFile.py: class RealtimeLocalASR\<close>

text \<open>
  The local-ASR engine adds the segmenter's state and the loaded Whisper model. The
  model is the blocking call \<^verbatim>\<open>transcribe\<close> on the samples of the utterance: it raises,
  or gives \<^verbatim>\<open>result["text"].strip()\<close> and \<^verbatim>\<open>result["language"]\<close>.
\<close>

record asr_client = client +
  speech_buffer :: "frame list"
  is_speaking :: bool
  silence_start :: "real option"
  whisper_model :: "int list \<Rightarrow> pyexc + string \<times> string"

definition SAMPLE_RATE :: real where
  "SAMPLE_RATE = 16000"

definition CHUNK_SIZE :: real where
  "CHUNK_SIZE = 1024"

definition ENERGY_THRESHOLD :: real where
  "ENERGY_THRESHOLD = 300"

definition SILENCE_DURATION :: real where
  "SILENCE_DURATION = 1"

definition MIN_SPEECH_DURATION :: real where
  "MIN_SPEECH_DURATION = 3 / 10"

text \<open>
  \<^verbatim>\<open>calculate_energy\<close> leaves its arithmetic to numpy, in binary32: the square of each
  sample after \<^verbatim>\<open>astype(np.float32)\<close>, \<^verbatim>\<open>np.mean\<close> of the squares, \<^verbatim>\<open>np.sqrt\<close> of the
  mean. What these three operations return, rounding and order of summation included,
  is numpy's and is a parameter here; a binary32 value is the real number it stands
  for. Nothing below assumes anything about the operations.
\<close>

record numpy_ops =
  np_square :: "int \<Rightarrow> real"
  np_mean :: "real list \<Rightarrow> real"
  np_sqrt :: "real \<Rightarrow> real"

definition calculate_energy :: "numpy_ops \<Rightarrow> frame \<Rightarrow> real" where
  "calculate_energy np audio_array =
     (if length audio_array = 0 then 0
      else
        (let energy = np_mean np (map (np_square np) audio_array)
         in if energy > 0 then np_sqrt np energy else 0))"

definition asr_send_function_result ::
  "string option \<Rightarrow> json \<Rightarrow> 'a client_scheme \<Rightarrow> 'a client_scheme outcome" where
  "asr_send_function_result call_id result s =
     and_then (ws_send (FunctionCallOutput call_id result) s) (ws_send (ResponseCreate []))"

definition asr_handle_message ::
  "tool_env \<Rightarrow> event \<Rightarrow> 'a client_scheme \<Rightarrow> 'a client_scheme outcome" where
  "asr_handle_message tenv e s =
     (let event_type = ev_type e in
      if event_type = Some ''session.created'' then Normal (s\<lparr>session_id := ev_session_id e\<rparr>)
      else if event_type = Some ''session.updated'' then Normal s
      else if event_type = Some ''response.created'' then Normal s
      else if event_type = Some ''response.done'' then Normal (s\<lparr>is_ai_speaking := False\<rparr>)
      else if event_type = Some ''response.text.delta'' then Normal s
      else if event_type = Some ''response.text.done'' then Normal s
      else if event_type = Some ''response.audio.delta'' then audio_delta e s
      else if event_type = Some ''response.audio.done''
        then Normal (s\<lparr>is_ai_speaking := False\<rparr>)
      else if event_type = Some ''response.function_call_arguments.delta'' then Normal s
      else if event_type = Some ''response.function_call_arguments.done''
        then function_call_done asr_send_function_result tenv e s
      else if event_type = Some ''response.cancelled''
        then Normal (s\<lparr>is_ai_speaking := False, drop_audio_until_cancelled := False\<rparr>)
      else if event_type = Some ''error'' then Normal s
      else Normal s)"

fun asr_handle_messages ::
  "tool_env \<Rightarrow> event list \<Rightarrow> 'a client_scheme \<Rightarrow> 'a client_scheme" where
  "asr_handle_messages tenv [] s = s"
| "asr_handle_messages tenv (e # es) s =
     (case asr_handle_message tenv e s of
        Normal s' \<Rightarrow> asr_handle_messages tenv es s'
      | Raised exc s' \<Rightarrow> s'
      | Returned s' \<Rightarrow> s')"

definition send_text_to_openai :: "string \<Rightarrow> 'a engine_scheme \<Rightarrow> 'a engine_scheme outcome" where
  "send_text_to_openai text s =
     and_then (ws_send (UserMessage text) s) (ws_send (ResponseCreate [''audio'', ''text'']))"

text \<open>\<^verbatim>\<open>int(SAMPLE_RATE * MIN_SPEECH_DURATION / CHUNK_SIZE)\<close>, the least number of frames
  that \<^verbatim>\<open>_process_speech\<close> passes on.\<close>

definition min_speech_frames :: int where
  "min_speech_frames = \<lfloor>SAMPLE_RATE * MIN_SPEECH_DURATION / CHUNK_SIZE\<rfloor>"

definition process_speech :: "'a asr_client_scheme \<Rightarrow> 'a asr_client_scheme" where
  "process_speech s =
     (if int (length (speech_buffer s)) < min_speech_frames then s
      else
        (let audio_array = concat (speech_buffer s);
             s1 = s\<lparr>trace := trace s @ [Transcribe audio_array]\<rparr>
         in
         case whisper_model s audio_array of
           Inl exc \<Rightarrow> s1
         | Inr (text, language) \<Rightarrow>
             if text \<noteq> [] then state_of (send_text_to_openai text s1) else s1))"

text \<open>
  One pass of the capture loop on a frame that was read, with the clock reading
  \<open>now\<close> that the pass takes (it calls \<^verbatim>\<open>time.time()\<close> once on each path that needs it).
  Clock readings are reals. The readings of one run lie within a factor of two of each
  other, and the binary64 difference of two such numbers is exact, so the difference
  below is the one the source computes.
\<close>

definition segment_frame ::
  "numpy_ops \<Rightarrow> real \<Rightarrow> frame \<Rightarrow> 'a asr_client_scheme \<Rightarrow> 'a asr_client_scheme" where
  "segment_frame np now audio_data s =
     (if \<not> is_ai_speaking s then
        (let energy = calculate_energy np audio_data in
         if energy > ENERGY_THRESHOLD then
           s\<lparr>is_speaking := True, speech_buffer := speech_buffer s @ [audio_data],
             silence_start := None\<rparr>
         else if is_speaking s then
           (case silence_start s of
              None \<Rightarrow> s\<lparr>silence_start := Some now\<rparr>
            | Some t0 \<Rightarrow>
                if now - t0 > SILENCE_DURATION then
                  (process_speech (s\<lparr>trace := trace s @ [SpeechEnded (speech_buffer s)]\<rparr>))
                    \<lparr>speech_buffer := [], is_speaking := False, silence_start := None\<rparr>
                else s)
         else s\<lparr>speech_buffer := speech_buffer s @ [audio_data]\<rparr>)
      else s)"

definition asr_capture_step ::
  "numpy_ops \<Rightarrow> real \<times> (pyexc + frame) \<Rightarrow> 'a asr_client_scheme \<Rightarrow>
   'a asr_client_scheme outcome" where
  "asr_capture_step np rd s =
     (case snd rd of
        Inl exc \<Rightarrow> Raised exc s
      | Inr audio_data \<Rightarrow> Normal (segment_frame np (fst rd) audio_data s))"

fun asr_start_audio_input ::
  "numpy_ops \<Rightarrow> (real \<times> (pyexc + frame)) list \<Rightarrow> 'a asr_client_scheme \<Rightarrow>
   'a asr_client_scheme" where
  "asr_start_audio_input np [] s = s"
| "asr_start_audio_input np (rd # rds) s =
     (if is_running s then
        (case asr_capture_step np rd s of
           Normal s' \<Rightarrow> asr_start_audio_input np rds s'
         | Raised exc s' \<Rightarrow> s'
         | Returned s' \<Rightarrow> s')
      else s)"

text \<open>Reads of the microphone that all succeed: each frame with the clock reading of
  its pass.\<close>

definition frames_read :: "(real \<times> frame) list \<Rightarrow> (real \<times> (pyexc + frame)) list" where
  "frames_read ps = map (\<lambda>p. (fst p, Inr (snd p))) ps"

definition started_asr_client ::
  "(nat \<Rightarrow> bool) \<Rightarrow> (nat \<Rightarrow> pyexc) \<Rightarrow> (nat \<Rightarrow> bool) \<Rightarrow> (nat \<Rightarrow> pyexc) \<Rightarrow>
   (int list \<Rightarrow> pyexc + string \<times> string) \<Rightarrow> asr_client" where
  "started_asr_client ws ws_exc dev dev_exc whisper =
     \<lparr>is_running = True, is_ai_speaking = False, session_id = None, output_stream = Some 0,
      ws_raises = ws, ws_error = ws_exc, ws_calls = 1,
      dev_raises = dev, dev_error = dev_exc, dev_calls = 1,
      trace = [Sent SessionUpdate, OpenStream],
      interrupt_flag = False, drop_audio_until_cancelled = False,
      speech_buffer = [], is_speaking = False, silence_start = None,
      whisper_model = whisper\<rparr>"

text \<open>
  The seconds of audio a buffer holds at the capture rate: the measure in which the
  specification states the minimum length of an utterance.
\<close>

definition buffered_duration :: "frame list \<Rightarrow> real" where
  "buffered_duration buf = real (length (concat buf)) / SAMPLE_RATE"

subsection \<open>waste/realtime\_client.py: the first RealtimeClient\<close>

text \<open>
  The module constants that steer the capture loop are a parameter; \<open>shipped_config\<close>
  holds the values the file gives them. \<open>ws_closed\<close> is \<^verbatim>\<open>not self.ws or self.ws.closed\<close>.
\<close>

record legacy_config =
  INTERRUPT_THRESHOLD :: int
  ENABLE_ECHO_CANCELLATION :: bool
  ENABLE_GAIN_CONTROL :: bool
  TARGET_GAIN :: int
  ENABLE_NOISE_GATE :: bool
  NOISE_GATE_THRESHOLD :: int

definition shipped_config :: legacy_config where
  "shipped_config =
     \<lparr>INTERRUPT_THRESHOLD = 0, ENABLE_ECHO_CANCELLATION = False,
      ENABLE_GAIN_CONTROL = False, TARGET_GAIN = 1,
      ENABLE_NOISE_GATE = False, NOISE_GATE_THRESHOLD = 30\<rparr>"

record legacy_client = engine +
  cancel_sent :: bool
  ws_closed :: bool

text \<open>
  \<^verbatim>\<open>int(x)\<close> on a float rounds towards zero. The energy of a chunk is the integer part
  of the root of the mean square; the source takes quotient and root in binary64, and
  for 16-bit samples in chunks of less than a million samples that has the same integer
  part as the exact value used here. The gain is an integer, as \<open>TARGET_GAIN\<close> is in
  the file, so \<^verbatim>\<open>sample * gain\<close> is a product of integers and \<^verbatim>\<open>int\<close> leaves it as
  it is.
\<close>

definition py_int :: "real \<Rightarrow> int" where
  "py_int x = (if x \<ge> 0 then \<lfloor>x\<rfloor> else \<lceil>x\<rceil>)"

definition calculate_audio_energy :: "frame \<Rightarrow> pyexc + int" where
  "calculate_audio_energy samples =
     (if length samples = 0 then Inl (PyExc ''ZeroDivisionError'' ''division by zero'')
      else
        (let sum_squares = (\<Sum>sample\<leftarrow>samples. sample\<^sup>2);
             rms = sqrt (real_of_int sum_squares / real (length samples))
         in Inr (py_int rms)))"

definition apply_gain :: "frame \<Rightarrow> int \<Rightarrow> frame" where
  "apply_gain samples gain =
     map (\<lambda>sample. max (- 32768) (min 32767 (sample * gain))) samples"

definition apply_noise_gate :: "frame \<Rightarrow> int \<Rightarrow> pyexc + frame" where
  "apply_noise_gate audio_data threshold =
     (case calculate_audio_energy audio_data of
        Inl exc \<Rightarrow> Inl exc
      | Inr energy \<Rightarrow>
          if energy < threshold then Inr (replicate (length audio_data) 0)
          else Inr audio_data)"

definition preprocess_audio :: "legacy_config \<Rightarrow> frame \<Rightarrow> pyexc + frame" where
  "preprocess_audio cfg audio_data =
     (case (if ENABLE_NOISE_GATE cfg
            then apply_noise_gate audio_data (NOISE_GATE_THRESHOLD cfg)
            else Inr audio_data) of
        Inl exc \<Rightarrow> Inl exc
      | Inr processed \<Rightarrow>
          if ENABLE_GAIN_CONTROL cfg then Inr (apply_gain processed (TARGET_GAIN cfg))
          else Inr processed)"

text \<open>
  The tail of the loop body: preprocess, encode, send. A send that raises while the
  engine runs breaks the loop.
\<close>

definition legacy_transmit ::
  "legacy_config \<Rightarrow> frame \<Rightarrow> 'a legacy_client_scheme \<Rightarrow> 'a legacy_client_scheme outcome" where
  "legacy_transmit cfg audio_data s =
     (case preprocess_audio cfg audio_data of
        Inl exc \<Rightarrow> Raised exc s
      | Inr processed_audio \<Rightarrow>
          (case ws_send (AppendAudio processed_audio) s of
             Raised exc s1 \<Rightarrow> if is_running s1 then Returned s1 else Normal s1
           | r \<Rightarrow> r))"

definition legacy_capture_step ::
  "legacy_config \<Rightarrow> pyexc + frame \<Rightarrow> 'a legacy_client_scheme \<Rightarrow>
   'a legacy_client_scheme outcome" where
  "legacy_capture_step cfg rd s =
     (case rd of
        Inl exc \<Rightarrow> Raised exc s
      | Inr audio_data \<Rightarrow>
          if ws_closed s then Returned s
          else if is_ai_speaking s \<and> ENABLE_ECHO_CANCELLATION cfg then
            (case calculate_audio_energy audio_data of
               Inl exc \<Rightarrow> Raised exc s
             | Inr audio_level \<Rightarrow>
                 if audio_level > INTERRUPT_THRESHOLD cfg \<and> \<not> cancel_sent s then
                   (case ws_send ResponseCancel s of
                      Normal s1 \<Rightarrow>
                        legacy_transmit cfg audio_data
                          (s1\<lparr>is_ai_speaking := False, cancel_sent := True\<rparr>)
                    | r \<Rightarrow> legacy_transmit cfg audio_data (state_of r))
                 else Normal s)
          else legacy_transmit cfg audio_data s)"

definition started_legacy_client ::
  "(nat \<Rightarrow> bool) \<Rightarrow> (nat \<Rightarrow> pyexc) \<Rightarrow> (nat \<Rightarrow> bool) \<Rightarrow> (nat \<Rightarrow> pyexc) \<Rightarrow>
   legacy_client" where
  "started_legacy_client ws ws_exc dev dev_exc =
     \<lparr>is_running = True, is_ai_speaking = False, session_id = None, output_stream = Some 0,
      ws_raises = ws, ws_error = ws_exc, ws_calls = 1,
      dev_raises = dev, dev_error = dev_exc, dev_calls = 1,
      trace = [Sent SessionUpdate, OpenStream],
      cancel_sent = False, ws_closed = False\<rparr>"

section \<open>Notions used in the statements\<close>

text \<open>The state in which the capture loop leaves the end of an utterance.\<close>

definition closing :: "'a asr_client_scheme \<Rightarrow> 'a asr_client_scheme" where
  "closing s =
     (process_speech (s\<lparr>trace := trace s @ [SpeechEnded (speech_buffer s)]\<rparr>))
       \<lparr>speech_buffer := [], is_speaking := False, silence_start := None\<rparr>"

section \<open>Concrete inputs\<close>

text \<open>Readings of the outside used where a statement is evaluated on an input.\<close>

definition sample_tool_env :: tool_env where
  "sample_tool_env =
     \<lparr>now_text = ''2025-01-01 12:00:00'', draws = (\<lambda>k. k),
      menu_file = FileNotFound, menu_filter = (\<lambda>d a b c r. Inr (JObj [])),
      books_file = FileNotFound, books_filter = (\<lambda>d a b c r. Inr (JObj []))\<rparr>"

text \<open>
  An event with no field set: \<^verbatim>\<open>data.get\<close> gives its defaults, the empty delta
  decodes to no bytes and the default arguments string parses to the empty object.
\<close>

definition blank_event :: event where
  "blank_event =
     \<lparr>ev_type = None, ev_session_id = None, ev_delta = [], ev_audio = Inr [],
      ev_call_id = None, ev_name = None, ev_arguments = Inr (JObj []),
      ev_error_message = None\<rparr>"

definition audio_delta_event :: "string \<Rightarrow> string \<Rightarrow> event" where
  "audio_delta_event b64 bytes =
     blank_event\<lparr>ev_type := Some ''response.audio.delta'', ev_delta := b64,
                 ev_audio := Inr bytes\<rparr>"

definition function_call_event :: "string \<Rightarrow> string \<Rightarrow> pyexc + json \<Rightarrow> event" where
  "function_call_event call_id name parsed =
     blank_event\<lparr>ev_type := Some ''response.function_call_arguments.done'',
                 ev_call_id := Some call_id, ev_name := Some name, ev_arguments := parsed\<rparr>"

definition error_event :: "string \<Rightarrow> event" where
  "error_event msg = blank_event\<lparr>ev_type := Some ''error'', ev_error_message := Some msg\<rparr>"

text \<open>
  The exceptions of a send on a connection that was lost and of a call on a closed
  stream, for the outside of the states below.
\<close>

definition connection_closed :: pyexc where
  "connection_closed = PyExc ''ConnectionClosedError'' ''no close frame received or sent''"

definition stream_closed :: pyexc where
  "stream_closed = PyExc ''OSError'' ''[Errno -9988] Stream closed''"

text \<open>A running client whose connection and device accept every call; the same with
  the suppress flag set; and a client with an interrupt pending whose connection is
  dead.\<close>

definition ready_client :: client where
  "ready_client =
     started_client (\<lambda>k. False) (\<lambda>k. connection_closed) (\<lambda>k. False) (\<lambda>k. stream_closed)"

definition muted_client :: client where
  "muted_client = ready_client\<lparr>drop_audio_until_cancelled := True\<rparr>"

definition cut_off_client :: client where
  "cut_off_client =
     (started_client (\<lambda>k. True) (\<lambda>k. connection_closed) (\<lambda>k. False) (\<lambda>k. stream_closed))
       \<lparr>is_ai_speaking := True, interrupt_flag := True\<rparr>"


text \<open>The first client on a connection that accepts every send, idle and while the AI
  speaks.\<close>

definition ready_legacy_client :: legacy_client where
  "ready_legacy_client =
     started_legacy_client (\<lambda>k. False) (\<lambda>k. connection_closed)
       (\<lambda>k. False) (\<lambda>k. stream_closed)"

definition speaking_legacy_client :: legacy_client where
  "speaking_legacy_client = ready_legacy_client\<lparr>is_ai_speaking := True\<rparr>"

text \<open>
  A chunk of silence and a chunk of constant amplitude 1000, a transcriber that hears
  nothing, and the local-ASR engine started on a connection and a device that accept
  every call. A chunk is 1024 samples at 16 kHz, 64 ms.
\<close>

definition quiet_frame :: frame where
  "quiet_frame = replicate 1024 0"

definition loud_frame :: frame where
  "loud_frame = replicate 1024 1000"

definition deaf_whisper :: "int list \<Rightarrow> pyexc + string \<times> string" where
  "deaf_whisper audio = Inr ([], ''en'')"

definition ready_asr_client :: asr_client where
  "ready_asr_client =
     started_asr_client (\<lambda>k. False) (\<lambda>k. connection_closed) (\<lambda>k. False) (\<lambda>k. stream_closed)
       deaf_whisper"

text \<open>
  The three operations without rounding. On a chunk whose samples are all 0 or all
  1000 binary32 rounds nothing, in whatever order the squares are added: each square is
  0 or \<open>10\<^sup>6\<close>, each sum of up to 1024 of them is 64 times an integer below
  \<open>2\<^sup>2\<^sup>4\<close>, which binary32 holds exactly, the mean is 0 or \<open>10\<^sup>6\<close> and the
  root 0 or 1000. On the two chunks above these are therefore the
  values that numpy returns.
\<close>

definition exact_numpy :: numpy_ops where
  "exact_numpy =
     \<lparr>np_square = (\<lambda>x. (real_of_int x)\<^sup>2),
      np_mean = (\<lambda>xs. sum_list xs / real (length xs)),
      np_sqrt = sqrt\<rparr>"

definition frames_at :: "nat \<Rightarrow> nat \<Rightarrow> frame \<Rightarrow> (real \<times> frame) list" where
  "frames_at i j f = map (\<lambda>k. (real k * (64 / 1000), f)) [i..<j]"

section \<open>Facts about the shared steps\<close>

lemma audio_delta_dropped:
  "drop_audio_until_cancelled s \<Longrightarrow> audio_delta e s = Normal s"
  by (simp add: audio_delta_def)

lemma rebuild_keeps_connection:
  "ws_raises (rebuild_output_stream s) = ws_raises s \<and>
   ws_calls (rebuild_output_stream s) = ws_calls s"
  by (simp add: rebuild_output_stream_def dev_call_def)

lemma rebuild_keeps_flags:
  "drop_audio_until_cancelled (rebuild_output_stream s) = drop_audio_until_cancelled s \<and>
   is_ai_speaking (rebuild_output_stream s) = is_ai_speaking s \<and>
   interrupt_flag (rebuild_output_stream s) = interrupt_flag s \<and>
   is_running (rebuild_output_stream s) = is_running s"
  by (simp add: rebuild_output_stream_def dev_call_def)

lemma rebuild_keeps_presence:
  "(output_stream (rebuild_output_stream s) = None) = (output_stream s = None)"
  by (simp add: rebuild_output_stream_def dev_call_def)

text \<open>The state in which the polling loop reaches the cancel request.\<close>

lemma handle_interrupt_unfold:
  "handle_interrupt s =
     (send_cancel
        (if output_stream s \<noteq> None
         then rebuild_output_stream
                (s\<lparr>drop_audio_until_cancelled := True, is_ai_speaking := False\<rparr>)
         else s\<lparr>drop_audio_until_cancelled := True, is_ai_speaking := False\<rparr>))
       \<lparr>interrupt_flag := False\<rparr>"
  by (simp add: handle_interrupt_def Let_def)

lemma send_cancel_raises:
  "ws_raises s (ws_calls s) \<Longrightarrow>
   send_cancel s = s\<lparr>ws_calls := Suc (ws_calls s), drop_audio_until_cancelled := False\<rparr>"
  by (simp add: send_cancel_def ws_send_def)

lemma send_cancel_accepted:
  "\<not> ws_raises s (ws_calls s) \<Longrightarrow>
   send_cancel s = s\<lparr>ws_calls := Suc (ws_calls s), trace := trace s @ [Sent ResponseCancel]\<rparr>"
  by (simp add: send_cancel_def ws_send_def)

section \<open>The suppress flag\<close>

lemma handle_message_delta_dropped:
  "drop_audio_until_cancelled s \<Longrightarrow> ev_type e = Some ''response.audio.delta'' \<Longrightarrow>
   handle_message tenv e s = Normal s"
  by (simp add: handle_message_def audio_delta_dropped)

lemma asr_handle_message_delta_dropped:
  "drop_audio_until_cancelled s \<Longrightarrow> ev_type e = Some ''response.audio.delta'' \<Longrightarrow>
   asr_handle_message tenv e s = Normal s"
  by (simp add: asr_handle_message_def audio_delta_dropped)

lemma handle_messages_deltas_dropped:
  "drop_audio_until_cancelled s \<Longrightarrow> \<forall>e\<in>set es. ev_type e = Some ''response.audio.delta'' \<Longrightarrow>
   handle_messages tenv es s = s"
  by (induction es) (simp_all add: handle_message_delta_dropped)

lemma asr_handle_messages_deltas_dropped:
  "drop_audio_until_cancelled s \<Longrightarrow> \<forall>e\<in>set es. ev_type e = Some ''response.audio.delta'' \<Longrightarrow>
   asr_handle_messages tenv es s = s"
  by (induction es) (simp_all add: asr_handle_message_delta_dropped)

text \<open>
  Claim C1. While \<open>drop_audio_until_cancelled\<close> is set, a \<^verbatim>\<open>response.audio.delta\<close>
  event leaves the whole state as it was, in the handler of either file: nothing is
  decoded (the event may carry a payload whose decoding would raise), nothing is added
  to the trace, so nothing is written to the output device. The same holds for any
  number of such events in a row.
\<close>

theorem suppressed_audio_is_dropped:
  assumes "drop_audio_until_cancelled s"
    and "\<forall>e\<in>set es. ev_type e = Some ''response.audio.delta''"
  shows "handle_messages tenv es s = s \<and> asr_handle_messages tenv es s = s \<and>
         (\<forall>e\<in>set es. handle_message tenv e s = Normal s \<and>
                       asr_handle_message tenv e s = Normal s)"
  using assms
  by (simp add: handle_messages_deltas_dropped asr_handle_messages_deltas_dropped
      handle_message_delta_dropped asr_handle_message_delta_dropped)

theorem suppressed_audio_is_dropped_witness:
  "drop_audio_until_cancelled muted_client \<and>
   handle_messages sample_tool_env
     [audio_delta_event ''AAEC'' [CHR 0x00, CHR 0x01, CHR 0x02],
      audio_delta_event ''AwQF'' [CHR 0x03, CHR 0x04, CHR 0x05],
      audio_delta_event ''BgcI'' [CHR 0x06, CHR 0x07, CHR 0x08]] muted_client = muted_client \<and>
   trace (asr_handle_messages sample_tool_env
     [audio_delta_event ''AAEC'' [CHR 0x00, CHR 0x01, CHR 0x02],
      audio_delta_event ''AwQF'' [CHR 0x03, CHR 0x04, CHR 0x05],
      audio_delta_event ''BgcI'' [CHR 0x06, CHR 0x07, CHR 0x08]] muted_client)
     = [Sent SessionUpdate, OpenStream]"
proof -
  have d: "drop_audio_until_cancelled muted_client"
    by (simp add: muted_client_def ready_client_def)
  have t: "\<forall>e\<in>set [audio_delta_event ''AAEC'' [CHR 0x00, CHR 0x01, CHR 0x02],
      audio_delta_event ''AwQF'' [CHR 0x03, CHR 0x04, CHR 0x05],
      audio_delta_event ''BgcI'' [CHR 0x06, CHR 0x07, CHR 0x08]].
        ev_type e = Some ''response.audio.delta''"
    by (simp add: audio_delta_event_def)
  have tr: "trace muted_client = [Sent SessionUpdate, OpenStream]"
    by (simp add: muted_client_def ready_client_def started_client_def new_client_def)
  show ?thesis
    using suppressed_audio_is_dropped [OF d t, of sample_tool_env] d tr by simp
qed

section \<open>The cancellation-failure error\<close>

lemma cancellation_failure_clears_flag:
  "ev_type e = Some ''error'' \<Longrightarrow> is_cancellation_failure (error_message e) \<Longrightarrow>
   handle_message tenv e s = Normal (s\<lparr>drop_audio_until_cancelled := False\<rparr>)"
  by (simp add: handle_message_def)

lemma nothing_to_cancel_is_failure:
  "is_cancellation_failure ''Cancellation failed: no active response found''"
  by (simp add: is_cancellation_failure_def)

text \<open>
  Claim C2. The handler of realtime\_local\_asr.py clears \<open>drop_audio_until_cancelled\<close>
  on an error whose message says that the cancellation failed. The handler of
  waste/tempCodeRunnerFile.py only prints an error event: whatever its message, the
  state stays as it was. At the error ``Cancellation failed: no active response found'',
  received with the flag set, the first handler clears the flag and the second leaves
  the session muted.
\<close>

theorem asr_error_event_keeps_flag:
  "asr_handle_message tenv (e\<lparr>ev_type := Some ''error''\<rparr>) s = Normal s \<and>
   drop_audio_until_cancelled muted_client \<and>
   drop_audio_until_cancelled
     (state_of (asr_handle_message sample_tool_env
        (error_event ''Cancellation failed: no active response found'') muted_client)) \<and>
   \<not> drop_audio_until_cancelled
     (state_of (handle_message sample_tool_env
        (error_event ''Cancellation failed: no active response found'') muted_client))"
proof -
  have ty: "ev_type (error_event m) = Some ''error''" for m
    by (simp add: error_event_def)
  have msg: "error_message (error_event m) = m" for m
    by (simp add: error_event_def error_message_def)
  have 1: "asr_handle_message tenv (e\<lparr>ev_type := Some ''error''\<rparr>) s = Normal s"
    by (simp add: asr_handle_message_def)
  have 2: "drop_audio_until_cancelled muted_client"
    by (simp add: muted_client_def ready_client_def)
  have 3: "asr_handle_message sample_tool_env
        (error_event ''Cancellation failed: no active response found'') muted_client =
      Normal muted_client"
    by (simp add: asr_handle_message_def ty)
  have 4: "handle_message sample_tool_env
        (error_event ''Cancellation failed: no active response found'') muted_client =
      Normal (muted_client\<lparr>drop_audio_until_cancelled := False\<rparr>)"
    by (rule cancellation_failure_clears_flag)
       (simp_all add: ty msg nothing_to_cancel_is_failure)
  show ?thesis
    by (simp add: 1 2 3 4)
qed

section \<open>What clears the suppress flag\<close>

lemma send_function_result_resets:
  "\<not> drop_audio_until_cancelled (state_of (send_function_result call_id result s))"
  by (simp add: send_function_result_def and_then_def ws_send_def)

lemma send_function_result_never_returns:
  "send_function_result call_id result s \<noteq> Returned s'"
  by (simp add: send_function_result_def and_then_def ws_send_def)

lemma function_call_done_resets:
  "\<not> drop_audio_until_cancelled
       (state_of (function_call_done send_function_result tenv e s))"
proof -
  have r: "\<not> drop_audio_until_cancelled (state_of (send_function_result c j s'))" for c j s'
    by (rule send_function_result_resets)
  have n: "send_function_result c j s' = Normal s1 \<Longrightarrow> \<not> drop_audio_until_cancelled s1"
    for c j s' s1
    using r [of c j s'] by simp
  show ?thesis
    unfolding function_call_done_def Let_def
    by (auto split: sum.split outcome.split simp: r dest: n
        simp: send_function_result_never_returns)
qed

lemma capture_step_keeps_flag:
  "drop_audio_until_cancelled (state_of (capture_step rd (s::client))) =
     drop_audio_until_cancelled s"
  by (simp add: capture_step_def ws_send_def split: sum.split)

lemma poll_keeps_flag:
  assumes "drop_audio_until_cancelled s"
    and "\<not> (is_running s \<and> interrupt_flag s \<and> ws_raises s (ws_calls s))"
  shows "drop_audio_until_cancelled (keyboard_poll s)"
proof (cases "is_running s \<and> interrupt_flag s")
  case False
  then show ?thesis using assms(1) by (auto simp: keyboard_poll_def)
next
  case True
  define s2 where "s2 =
    (if output_stream s \<noteq> None
     then rebuild_output_stream (s\<lparr>drop_audio_until_cancelled := True, is_ai_speaking := False\<rparr>)
     else s\<lparr>drop_audio_until_cancelled := True, is_ai_speaking := False\<rparr>)"
  have ok: "\<not> ws_raises s2 (ws_calls s2)"
    using True assms(2) by (simp add: s2_def rebuild_keeps_connection)
  have d: "drop_audio_until_cancelled s2"
    by (simp add: s2_def rebuild_keeps_flags)
  have "keyboard_poll s = (send_cancel s2)\<lparr>interrupt_flag := False\<rparr>"
    using True by (simp add: keyboard_poll_def handle_interrupt_unfold s2_def)
  then show ?thesis
    by (simp add: send_cancel_accepted [OF ok] d)
qed

lemma other_events_keep_flag:
  assumes "drop_audio_until_cancelled s"
    and "ev_type e \<noteq> Some ''response.cancelled''"
    and "ev_type e \<noteq> Some ''response.function_call_arguments.done''"
    and "\<not> (ev_type e = Some ''error'' \<and> is_cancellation_failure (error_message e))"
  shows "drop_audio_until_cancelled (state_of (handle_message tenv e s))"
  using assms by (simp add: handle_message_def Let_def audio_delta_dropped)

text \<open>
  Claim C3, as the code has it. With the flag set, it stays set over every step of the
  engine of realtime\_local\_asr.py except these: a \<^verbatim>\<open>response.cancelled\<close> event, an
  error event with a cancellation-failure message, a
  \<^verbatim>\<open>response.function_call_arguments.done\<close> event, and a pass of the polling loop whose
  cancel request cannot be sent. The function-call event always clears the flag,
  because \<^verbatim>\<open>_send_function_result\<close> resets it before it sends.
\<close>

theorem suppress_flag_kept_by_other_steps:
  assumes "drop_audio_until_cancelled s"
  shows "(\<forall>tenv e.
            ev_type e \<noteq> Some ''response.cancelled'' \<and>
            ev_type e \<noteq> Some ''response.function_call_arguments.done'' \<and>
            \<not> (ev_type e = Some ''error'' \<and> is_cancellation_failure (error_message e)) \<longrightarrow>
            drop_audio_until_cancelled (client_step (Inbound tenv e) s)) \<and>
         (\<forall>tenv e.
            ev_type e = Some ''response.function_call_arguments.done'' \<longrightarrow>
            \<not> drop_audio_until_cancelled (client_step (Inbound tenv e) s)) \<and>
         (\<forall>rd. drop_audio_until_cancelled (client_step (Captured rd) s)) \<and>
         drop_audio_until_cancelled (client_step Enter s) \<and>
         (\<not> (is_running s \<and> interrupt_flag s \<and> ws_raises s (ws_calls s)) \<longrightarrow>
            drop_audio_until_cancelled (client_step Poll s))"
proof (intro conjI allI impI)
  fix tenv and e :: event
  assume "ev_type e \<noteq> Some ''response.cancelled'' \<and>
          ev_type e \<noteq> Some ''response.function_call_arguments.done'' \<and>
          \<not> (ev_type e = Some ''error'' \<and> is_cancellation_failure (error_message e))"
  then show "drop_audio_until_cancelled (client_step (Inbound tenv e) s)"
    using other_events_keep_flag [OF assms] by simp
next
  fix tenv and e :: event
  assume "ev_type e = Some ''response.function_call_arguments.done''"
  then show "\<not> drop_audio_until_cancelled (client_step (Inbound tenv e) s)"
    by (simp add: handle_message_def function_call_done_resets)
next
  fix rd
  show "drop_audio_until_cancelled (client_step (Captured rd) s)"
    using assms by (simp add: capture_step_keeps_flag)
next
  show "drop_audio_until_cancelled (client_step Enter s)"
    using assms by (simp add: enter_pressed_def)
next
  assume "\<not> (is_running s \<and> interrupt_flag s \<and> ws_raises s (ws_calls s))"
  then show "drop_audio_until_cancelled (client_step Poll s)"
    using poll_keeps_flag [OF assms] by simp
qed

theorem suppress_flag_kept_by_other_steps_witness:
  "drop_audio_until_cancelled muted_client \<and>
   drop_audio_until_cancelled
     (client_step (Inbound sample_tool_env (blank_event\<lparr>ev_type := Some ''response.done''\<rparr>))
        muted_client) \<and>
   \<not> drop_audio_until_cancelled
     (client_step (Inbound sample_tool_env
        (function_call_event ''call_1'' ''get_weather'' (Inr (JObj [])))) muted_client) \<and>
   drop_audio_until_cancelled (client_step Poll muted_client)"
proof -
  have d: "drop_audio_until_cancelled muted_client"
    by (simp add: muted_client_def ready_client_def)
  note t = suppress_flag_kept_by_other_steps [OF d]
  have 1: "drop_audio_until_cancelled
     (client_step (Inbound sample_tool_env (blank_event\<lparr>ev_type := Some ''response.done''\<rparr>))
        muted_client)"
    using t [THEN conjunct1, rule_format, of "blank_event\<lparr>ev_type := Some ''response.done''\<rparr>"
        sample_tool_env]
    by simp
  have 2: "\<not> drop_audio_until_cancelled
     (client_step (Inbound sample_tool_env
        (function_call_event ''call_1'' ''get_weather'' (Inr (JObj [])))) muted_client)"
    using t [THEN conjunct2, THEN conjunct1, rule_format,
        of "function_call_event ''call_1'' ''get_weather'' (Inr (JObj []))" sample_tool_env]
    by (simp add: function_call_event_def)
  have i: "\<not> interrupt_flag muted_client"
    by (simp add: muted_client_def ready_client_def started_client_def new_client_def)
  have 3: "drop_audio_until_cancelled (client_step Poll muted_client)"
    using t [THEN conjunct2, THEN conjunct2, THEN conjunct2, THEN conjunct2] i by simp
  show ?thesis using d 1 2 3 by simp
qed

text \<open>
  The claim as stated fails: with the flag set, a function-call event for the weather
  tool, which is neither a cancellation confirmation nor an error, clears the flag.
\<close>

theorem function_call_clears_suppress_flag:
  "drop_audio_until_cancelled muted_client \<and>
   ev_type (function_call_event ''call_1'' ''get_weather'' (Inr (JObj []))) \<noteq>
     Some ''response.cancelled'' \<and>
   ev_type (function_call_event ''call_1'' ''get_weather'' (Inr (JObj []))) \<noteq> Some ''error'' \<and>
   \<not> drop_audio_until_cancelled
     (client_step (Inbound sample_tool_env
        (function_call_event ''call_1'' ''get_weather'' (Inr (JObj [])))) muted_client)"
proof -
  have ty: "ev_type (function_call_event ''call_1'' ''get_weather'' (Inr (JObj []))) =
      Some ''response.function_call_arguments.done''"
    by (simp add: function_call_event_def)
  have "\<not> drop_audio_until_cancelled
     (client_step (Inbound sample_tool_env
        (function_call_event ''call_1'' ''get_weather'' (Inr (JObj [])))) muted_client)"
    by (simp add: handle_message_def ty function_call_done_resets)
  then show ?thesis
    by (simp add: ty muted_client_def)
qed

section \<open>Captured frames in the server-VAD engines\<close>

lemma preprocess_audio_shipped:
  "preprocess_audio shipped_config audio_data = Inr audio_data"
  by (simp add: preprocess_audio_def shipped_config_def)

lemma legacy_transmit_shipped:
  "\<not> ws_raises l (ws_calls l) \<Longrightarrow>
   legacy_transmit shipped_config audio_data l =
     Normal (l\<lparr>ws_calls := Suc (ws_calls l), trace := trace l @ [Sent (AppendAudio audio_data)]\<rparr>)"
  by (simp add: legacy_transmit_def preprocess_audio_shipped ws_send_def)

text \<open>
  Claim C4, as the code has it. In the engine of realtime\_local\_asr.py a frame that was
  read is not transmitted while \<open>is_ai_speaking\<close> holds, and otherwise it is sent as
  exactly one append-audio event when the connection accepts the send. In the first
  client, waste/realtime\_client.py, the skip is tied to \<open>ENABLE_ECHO_CANCELLATION\<close>:
  with the constants as the file sets them, every frame read on an open connection is
  sent as one append-audio event, whether the AI speaks or not; with echo cancellation
  switched on, a frame read while the AI speaks and after the cancel was sent is
  skipped.
\<close>

theorem capture_sends_one_append_unless_speaking:
  "(is_ai_speaking s \<longrightarrow> capture_step (Inr audio_data) s = Normal s) \<and>
   (\<not> is_ai_speaking s \<and> \<not> ws_raises s (ws_calls s) \<longrightarrow>
      capture_step (Inr audio_data) s =
        Normal (s\<lparr>ws_calls := Suc (ws_calls s),
                  trace := trace s @ [Sent (AppendAudio audio_data)]\<rparr>)) \<and>
   (\<not> ws_closed l \<and> \<not> ws_raises l (ws_calls l) \<longrightarrow>
      legacy_capture_step shipped_config (Inr audio_data) l =
        Normal (l\<lparr>ws_calls := Suc (ws_calls l),
                  trace := trace l @ [Sent (AppendAudio audio_data)]\<rparr>)) \<and>
   (ENABLE_ECHO_CANCELLATION cfg \<and> is_ai_speaking l \<and> cancel_sent l \<and> \<not> ws_closed l \<and>
    audio_data \<noteq> [] \<longrightarrow>
      legacy_capture_step cfg (Inr audio_data) l = Normal l)"
proof (intro conjI impI)
  assume "is_ai_speaking s"
  then show "capture_step (Inr audio_data) s = Normal s"
    by (simp add: capture_step_def)
next
  assume "\<not> is_ai_speaking s \<and> \<not> ws_raises s (ws_calls s)"
  then show "capture_step (Inr audio_data) s =
        Normal (s\<lparr>ws_calls := Suc (ws_calls s),
                  trace := trace s @ [Sent (AppendAudio audio_data)]\<rparr>)"
    by (simp add: capture_step_def ws_send_def)
next
  assume "\<not> ws_closed l \<and> \<not> ws_raises l (ws_calls l)"
  then show "legacy_capture_step shipped_config (Inr audio_data) l =
        Normal (l\<lparr>ws_calls := Suc (ws_calls l),
                  trace := trace l @ [Sent (AppendAudio audio_data)]\<rparr>)"
    by (simp add: legacy_capture_step_def legacy_transmit_shipped)
       (simp add: shipped_config_def)
next
  assume "ENABLE_ECHO_CANCELLATION cfg \<and> is_ai_speaking l \<and> cancel_sent l \<and> \<not> ws_closed l \<and>
    audio_data \<noteq> []"
  then show "legacy_capture_step cfg (Inr audio_data) l = Normal l"
    by (simp add: legacy_capture_step_def calculate_audio_energy_def Let_def)
qed

theorem capture_sends_one_append_unless_speaking_witness:
  "capture_step (Inr (replicate 1024 0)) (ready_client\<lparr>is_ai_speaking := True\<rparr>) =
     Normal (ready_client\<lparr>is_ai_speaking := True\<rparr>) \<and>
   capture_step (Inr (replicate 1024 0)) ready_client =
     Normal (ready_client\<lparr>ws_calls := 2,
       trace := [Sent SessionUpdate, OpenStream, Sent (AppendAudio (replicate 1024 0))]\<rparr>) \<and>
   legacy_capture_step shipped_config (Inr (replicate 4800 0))
       ready_legacy_client =
     Normal (ready_legacy_client\<lparr>ws_calls := 2,
       trace := [Sent SessionUpdate, OpenStream, Sent (AppendAudio (replicate 4800 0))]\<rparr>) \<and>
   legacy_capture_step (shipped_config\<lparr>ENABLE_ECHO_CANCELLATION := True\<rparr>)
       (Inr (replicate 4800 0)) (speaking_legacy_client\<lparr>cancel_sent := True\<rparr>) =
     Normal (speaking_legacy_client\<lparr>cancel_sent := True\<rparr>)"
proof -
  have r: "is_ai_speaking ready_client = False" "ws_calls ready_client = 1"
    "ws_raises ready_client = (\<lambda>k. False)"
    "trace ready_client = [Sent SessionUpdate, OpenStream]"
    by (simp_all add: ready_client_def started_client_def new_client_def)
  have g: "ws_closed ready_legacy_client = False"
    "ws_calls ready_legacy_client = 1"
    "ws_raises ready_legacy_client = (\<lambda>k. False)"
    "trace ready_legacy_client = [Sent SessionUpdate, OpenStream]"
    by (simp_all add: ready_legacy_client_def started_legacy_client_def)
  have k: "is_ai_speaking speaking_legacy_client" "ws_closed speaking_legacy_client = False"
    by (simp_all add: speaking_legacy_client_def ready_legacy_client_def started_legacy_client_def)
  have 1: "capture_step (Inr (replicate 1024 0)) (ready_client\<lparr>is_ai_speaking := True\<rparr>) =
     Normal (ready_client\<lparr>is_ai_speaking := True\<rparr>)"
    using capture_sends_one_append_unless_speaking
      [where s = "ready_client\<lparr>is_ai_speaking := True\<rparr>"
         and audio_data = "replicate 1024 0", THEN conjunct1]
    by simp
  have 2: "capture_step (Inr (replicate 1024 0)) ready_client =
     Normal (ready_client\<lparr>ws_calls := 2,
       trace := [Sent SessionUpdate, OpenStream, Sent (AppendAudio (replicate 1024 0))]\<rparr>)"
    using capture_sends_one_append_unless_speaking
      [where s = ready_client and audio_data = "replicate 1024 0",
        THEN conjunct2, THEN conjunct1]
    by (simp add: r)
  have 3: "legacy_capture_step shipped_config (Inr (replicate 4800 0))
       ready_legacy_client =
     Normal (ready_legacy_client\<lparr>ws_calls := 2,
       trace := [Sent SessionUpdate, OpenStream, Sent (AppendAudio (replicate 4800 0))]\<rparr>)"
    using capture_sends_one_append_unless_speaking
      [where l = "ready_legacy_client"
         and audio_data = "replicate 4800 0",
        THEN conjunct2, THEN conjunct2, THEN conjunct1]
    by (simp add: g)
  have 4: "legacy_capture_step (shipped_config\<lparr>ENABLE_ECHO_CANCELLATION := True\<rparr>)
       (Inr (replicate 4800 0)) (speaking_legacy_client\<lparr>cancel_sent := True\<rparr>) =
     Normal (speaking_legacy_client\<lparr>cancel_sent := True\<rparr>)"
    using capture_sends_one_append_unless_speaking
      [where l = "speaking_legacy_client\<lparr>cancel_sent := True\<rparr>"
         and audio_data = "replicate 4800 0"
         and cfg = "shipped_config\<lparr>ENABLE_ECHO_CANCELLATION := True\<rparr>",
        THEN conjunct2, THEN conjunct2, THEN conjunct2]
    by (simp add: k)
  show ?thesis using 1 2 3 4 by simp
qed

text \<open>
  The claim as stated fails on the first client as it is configured: a frame read
  while the AI speaks is transmitted.
\<close>

theorem legacy_client_transmits_while_ai_speaks:
  "is_ai_speaking speaking_legacy_client \<and>
   legacy_capture_step shipped_config (Inr (replicate 4800 0)) speaking_legacy_client =
     Normal (speaking_legacy_client\<lparr>ws_calls := 2,
       trace := [Sent SessionUpdate, OpenStream, Sent (AppendAudio (replicate 4800 0))]\<rparr>)"
  by (simp add: legacy_capture_step_def legacy_transmit_def preprocess_audio_shipped ws_send_def
      speaking_legacy_client_def ready_legacy_client_def started_legacy_client_def)
     (simp add: shipped_config_def)

section \<open>The local utterance segmenter\<close>

lemma min_speech_frames_eq: "min_speech_frames = 4"
  by (simp add: min_speech_frames_def SAMPLE_RATE_def MIN_SPEECH_DURATION_def CHUNK_SIZE_def)

lemma calculate_energy_replicate:
  "0 < n \<Longrightarrow> calculate_energy exact_numpy (replicate n c) = \<bar>real_of_int c\<bar>"
  by (simp add: calculate_energy_def exact_numpy_def Let_def sum_list_replicate
      power2_eq_square)

lemma quiet_frame_energy: "calculate_energy exact_numpy quiet_frame = 0"
  by (simp add: quiet_frame_def calculate_energy_replicate)

lemma loud_frame_energy: "calculate_energy exact_numpy loud_frame = 1000"
  by (simp add: loud_frame_def calculate_energy_replicate)

lemma process_speech_keeps:
  "is_running (process_speech s) = is_running s \<and>
   is_ai_speaking (process_speech s) = is_ai_speaking s \<and>
   speech_buffer (process_speech s) = speech_buffer s \<and>
   is_speaking (process_speech s) = is_speaking s \<and>
   silence_start (process_speech s) = silence_start s"
  by (simp add: process_speech_def Let_def send_text_to_openai_def and_then_def ws_send_def
      split: sum.split prod.split)

lemma process_speech_trace:
  "\<exists>sent. trace (process_speech s) =
     trace s @
     (if int (length (speech_buffer s)) < min_speech_frames then []
      else [Transcribe (concat (speech_buffer s))]) @ map Sent sent"
proof (cases "int (length (speech_buffer s)) < min_speech_frames")
  case True
  then show ?thesis
    by (intro exI [of _ "[]"]) (simp add: process_speech_def)
next
  case False
  define s1 where "s1 = s\<lparr>trace := trace s @ [Transcribe (concat (speech_buffer s))]\<rparr>"
  have send: "\<exists>sent. trace (state_of (send_text_to_openai utter s1)) = trace s1 @ map Sent sent"
    for utter
  proof (cases "ws_raises s1 (ws_calls s1)")
    case True
    then have "trace (state_of (send_text_to_openai utter s1)) = trace s1 @ map Sent []"
      by (simp add: send_text_to_openai_def and_then_def ws_send_def)
    then show ?thesis by blast
  next
    case n1: False
    show ?thesis
    proof (cases "ws_raises s1 (Suc (ws_calls s1))")
      case True
      then have "trace (state_of (send_text_to_openai utter s1)) =
          trace s1 @ map Sent [UserMessage utter]"
        using n1 by (simp add: send_text_to_openai_def and_then_def ws_send_def)
      then show ?thesis by blast
    next
      case False
      then have "trace (state_of (send_text_to_openai utter s1)) =
          trace s1 @ map Sent [UserMessage utter, ResponseCreate [''audio'', ''text'']]"
        using n1 by (simp add: send_text_to_openai_def and_then_def ws_send_def)
      then show ?thesis by blast
    qed
  qed
  have "\<exists>sent. trace (process_speech s) = trace s1 @ map Sent sent"
  proof (cases "whisper_model s (concat (speech_buffer s))")
    case (Inl exc)
    then have "trace (process_speech s) = trace s1 @ map Sent []"
      using False by (simp add: process_speech_def s1_def Let_def)
    then show ?thesis by blast
  next
    case (Inr r)
    obtain utter language where r: "r = (utter, language)" by (cases r)
    show ?thesis
    proof (cases "utter = []")
      case True
      then have "trace (process_speech s) = trace s1 @ map Sent []"
        using False Inr r by (simp add: process_speech_def s1_def Let_def)
      then show ?thesis by blast
    next
      case nonempty: False
      then have "process_speech s = state_of (send_text_to_openai utter s1)"
        using False Inr r by (simp add: process_speech_def s1_def Let_def)
      then show ?thesis using send [of utter] by simp
    qed
  qed
  then show ?thesis
    using False by (simp add: s1_def)
qed

lemma not_running_stops:
  "\<not> is_running s \<Longrightarrow> asr_start_audio_input np rds s = s"
  by (cases rds) simp_all

lemma frames_read_step:
  "is_running s \<Longrightarrow>
   asr_start_audio_input np (frames_read (p # ps)) s =
     asr_start_audio_input np (frames_read ps) (segment_frame np (fst p) (snd p) s)"
  by (simp add: frames_read_def asr_capture_step_def)

lemma frames_read_append:
  "asr_start_audio_input np (frames_read (ps @ qs)) s =
     asr_start_audio_input np (frames_read qs) (asr_start_audio_input np (frames_read ps) s)"
proof (induction ps arbitrary: s)
  case Nil
  then show ?case by (simp add: frames_read_def)
next
  case (Cons p ps)
  show ?case
  proof (cases "is_running s")
    case True
    then show ?thesis using Cons.IH by (simp add: frames_read_step)
  next
    case False
    then show ?thesis by (simp add: not_running_stops)
  qed
qed

text \<open>Below-threshold frames while no speech is under way all go into the buffer.\<close>

lemma quiet_frames_accumulate:
  assumes "is_running s" and "\<not> is_ai_speaking s" and "\<not> is_speaking s"
    and "\<forall>p\<in>set ps. \<not> calculate_energy np (snd p) > ENERGY_THRESHOLD"
  shows "asr_start_audio_input np (frames_read ps) s =
           s\<lparr>speech_buffer := speech_buffer s @ map snd ps\<rparr>"
  using assms
proof (induction ps arbitrary: s)
  case Nil
  then show ?case by (simp add: frames_read_def)
next
  case (Cons p ps)
  have step: "segment_frame np (fst p) (snd p) s = s\<lparr>speech_buffer := speech_buffer s @ [snd p]\<rparr>"
    using Cons.prems by (simp add: segment_frame_def Let_def)
  have "asr_start_audio_input np (frames_read ps) (s\<lparr>speech_buffer := speech_buffer s @ [snd p]\<rparr>) =
      (s\<lparr>speech_buffer := speech_buffer s @ [snd p]\<rparr>)
        \<lparr>speech_buffer := speech_buffer (s\<lparr>speech_buffer := speech_buffer s @ [snd p]\<rparr>) @ map snd ps\<rparr>"
    by (rule Cons.IH) (use Cons.prems in simp_all)
  then show ?case
    using Cons.prems(1) by (simp add: frames_read_step step)
qed

text \<open>Above-threshold frames start or continue an utterance and all go into the buffer.\<close>

lemma loud_frames_accumulate:
  assumes "is_running s" and "\<not> is_ai_speaking s"
    and "\<forall>p\<in>set ps. calculate_energy np (snd p) > ENERGY_THRESHOLD" and "ps \<noteq> []"
  shows "asr_start_audio_input np (frames_read ps) s =
           s\<lparr>speech_buffer := speech_buffer s @ map snd ps, is_speaking := True,
              silence_start := None\<rparr>"
  using assms
proof (induction ps arbitrary: s)
  case Nil
  then show ?case by simp
next
  case (Cons p ps)
  define s1 where "s1 = s\<lparr>speech_buffer := speech_buffer s @ [snd p], is_speaking := True,
              silence_start := None\<rparr>"
  have step: "segment_frame np (fst p) (snd p) s = s1"
    using Cons.prems by (simp add: segment_frame_def Let_def s1_def)
  show ?case
  proof (cases "ps = []")
    case True
    then show ?thesis
      using Cons.prems(1) by (simp add: frames_read_step step s1_def) (simp add: frames_read_def)
  next
    case False
    have "asr_start_audio_input np (frames_read ps) s1 =
        s1\<lparr>speech_buffer := speech_buffer s1 @ map snd ps, is_speaking := True,
           silence_start := None\<rparr>"
      by (rule Cons.IH) (use Cons.prems False in \<open>simp_all add: s1_def\<close>)
    then show ?thesis
      using Cons.prems(1) by (simp add: frames_read_step step) (simp add: s1_def)
  qed
qed

lemma silence_closes_once:
  assumes "is_running s" and "\<not> is_ai_speaking s" and "is_speaking s"
    and "silence_start s = Some t0"
    and "\<forall>p\<in>set ps. \<not> calculate_energy np (snd p) > ENERGY_THRESHOLD"
    and "\<exists>p\<in>set ps. fst p - t0 > SILENCE_DURATION"
  shows "\<exists>rest. asr_start_audio_input np (frames_read ps) s = (closing s)\<lparr>speech_buffer := rest\<rparr>"
  using assms
proof (induction ps)
  case Nil
  then show ?case by simp
next
  case (Cons p ps)
  show ?case
  proof (cases "fst p - t0 > SILENCE_DURATION")
    case True
    have step: "segment_frame np (fst p) (snd p) s = closing s"
      using Cons.prems True by (simp add: segment_frame_def Let_def closing_def)
    have c: "is_running (closing s)" "\<not> is_ai_speaking (closing s)" "\<not> is_speaking (closing s)"
      using Cons.prems by (simp_all add: closing_def process_speech_keeps)
    have "asr_start_audio_input np (frames_read ps) (closing s) =
        (closing s)\<lparr>speech_buffer := speech_buffer (closing s) @ map snd ps\<rparr>"
      by (rule quiet_frames_accumulate) (use c Cons.prems in simp_all)
    then show ?thesis
      using Cons.prems(1) by (auto simp: frames_read_step step)
  next
    case False
    have step: "segment_frame np (fst p) (snd p) s = s"
      using Cons.prems False by (simp add: segment_frame_def Let_def)
    have "\<exists>q\<in>set ps. fst q - t0 > SILENCE_DURATION"
      using Cons.prems(6) False by auto
    then have "\<exists>rest. asr_start_audio_input np (frames_read ps) s = (closing s)\<lparr>speech_buffer := rest\<rparr>"
      using Cons.IH Cons.prems by simp
    then show ?thesis
      using Cons.prems(1) by (simp add: frames_read_step step)
  qed
qed

lemma first_silence_starts_timer:
  assumes "\<not> is_ai_speaking s" and "is_speaking s" and "silence_start s = None"
    and "\<not> calculate_energy np (snd p) > ENERGY_THRESHOLD"
  shows "segment_frame np (fst p) (snd p) s = s\<lparr>silence_start := Some (fst p)\<rparr>"
  using assms by (simp add: segment_frame_def Let_def)

lemma closing_trace:
  assumes "\<not> int (length (speech_buffer s)) < min_speech_frames"
  shows "\<exists>sent. trace (closing s) =
           trace s @ [SpeechEnded (speech_buffer s), Transcribe (concat (speech_buffer s))] @
           map Sent sent"
proof -
  obtain sent where
    "trace (process_speech (s\<lparr>trace := trace s @ [SpeechEnded (speech_buffer s)]\<rparr>)) =
       trace (s\<lparr>trace := trace s @ [SpeechEnded (speech_buffer s)]\<rparr>) @
       (if int (length (speech_buffer (s\<lparr>trace := trace s @ [SpeechEnded (speech_buffer s)]\<rparr>)))
            < min_speech_frames then []
        else [Transcribe (concat (speech_buffer
                (s\<lparr>trace := trace s @ [SpeechEnded (speech_buffer s)]\<rparr>)))]) @ map Sent sent"
    using process_speech_trace by blast
  then have "trace (closing s) =
           trace s @ [SpeechEnded (speech_buffer s), Transcribe (concat (speech_buffer s))] @
           map Sent sent"
    using assms by (simp add: closing_def)
  then show ?thesis by blast
qed

lemma sent_is_neither:
  "filter is_speech_ended (map Sent sent) = [] \<and> filter is_transcribe (map Sent sent) = []"
  by (induction sent) simp_all

lemma frames_at_frames: "map snd (frames_at i j f) = replicate (j - i) f"
  by (simp add: frames_at_def comp_def map_replicate_const)

text \<open>
  Background frames, then an utterance, then silence that lasts: after the run the
  trace is that of one closing, made on the buffer of the background frames followed by
  the frames of the utterance.
\<close>

lemma one_utterance_run:
  assumes "\<forall>p\<in>set quiet1. \<not> calculate_energy np (snd p) > ENERGY_THRESHOLD"
    and "loud \<noteq> []"
    and "\<forall>p\<in>set loud. calculate_energy np (snd p) > ENERGY_THRESHOLD"
    and "\<forall>p\<in>set (p0 # ps). \<not> calculate_energy np (snd p) > ENERGY_THRESHOLD"
    and "\<exists>q\<in>set ps. fst q - fst p0 > SILENCE_DURATION"
  shows "\<exists>rest. asr_start_audio_input np (frames_read (quiet1 @ loud @ p0 # ps))
                   (started_asr_client ws ws_exc dev dev_exc whisper) =
           (closing ((started_asr_client ws ws_exc dev dev_exc whisper)
              \<lparr>speech_buffer := map snd quiet1 @ map snd loud, is_speaking := True,
               silence_start := Some (fst p0)\<rparr>))\<lparr>speech_buffer := rest\<rparr>"
proof -
  define s0 where "s0 = started_asr_client ws ws_exc dev dev_exc whisper"
  define s1 where "s1 = s0\<lparr>speech_buffer := map snd quiet1\<rparr>"
  define s2 where "s2 = s1\<lparr>speech_buffer := map snd quiet1 @ map snd loud,
                           is_speaking := True, silence_start := None\<rparr>"
  define s3 where "s3 = s2\<lparr>silence_start := Some (fst p0)\<rparr>"
  have init: "is_running s0" "\<not> is_ai_speaking s0" "\<not> is_speaking s0" "speech_buffer s0 = []"
    by (simp_all add: s0_def started_asr_client_def)
  have r1: "asr_start_audio_input np (frames_read quiet1) s0 = s1"
    using quiet_frames_accumulate [OF init(1,2,3) assms(1)] by (simp add: s1_def init)
  have r2: "asr_start_audio_input np (frames_read loud) s1 = s2"
    using loud_frames_accumulate [of s1 loud] init assms(2,3) by (simp add: s1_def s2_def)
  have s2_facts: "is_running s2" "\<not> is_ai_speaking s2" "is_speaking s2" "silence_start s2 = None"
    using init by (simp_all add: s2_def s1_def)
  have pq: "\<not> calculate_energy np (snd p0) > ENERGY_THRESHOLD"
    using assms(4) by simp
  have step: "segment_frame np (fst p0) (snd p0) s2 = s3"
    using first_silence_starts_timer [OF s2_facts(2,3,4) pq] by (simp add: s3_def)
  have s3_facts: "is_running s3" "\<not> is_ai_speaking s3" "is_speaking s3"
    "silence_start s3 = Some (fst p0)"
    using s2_facts by (simp_all add: s3_def)
  have quiet_ps: "\<forall>q\<in>set ps. \<not> calculate_energy np (snd q) > ENERGY_THRESHOLD"
    using assms(4) by simp
  obtain rest where
    r3: "asr_start_audio_input np (frames_read ps) s3 = (closing s3)\<lparr>speech_buffer := rest\<rparr>"
    using silence_closes_once [OF s3_facts quiet_ps assms(5)] by blast
  have whole: "asr_start_audio_input np (frames_read (quiet1 @ loud @ p0 # ps)) s0 =
      (closing s3)\<lparr>speech_buffer := rest\<rparr>"
    using s2_facts(1) by (simp add: frames_read_append r1 r2 frames_read_step step r3)
  have s3_eq: "s3 = s0\<lparr>speech_buffer := map snd quiet1 @ map snd loud, is_speaking := True,
               silence_start := Some (fst p0)\<rparr>"
    by (simp add: s3_def s2_def s1_def)
  show ?thesis
    using whole unfolding s3_eq s0_def by blast
qed

lemma one_utterance_trace:
  assumes "\<forall>p\<in>set quiet1. \<not> calculate_energy np (snd p) > ENERGY_THRESHOLD"
    and "\<forall>p\<in>set loud. calculate_energy np (snd p) > ENERGY_THRESHOLD"
    and "\<forall>p\<in>set quiet2. \<not> calculate_energy np (snd p) > ENERGY_THRESHOLD"
    and "2 \<le> length quiet2"
    and "fst (last quiet2) - fst (hd quiet2) > SILENCE_DURATION"
    and "4 \<le> length quiet1 + length loud" and "loud \<noteq> []"
  shows "filter is_speech_ended
           (trace (asr_start_audio_input np (frames_read (quiet1 @ loud @ quiet2))
                     (started_asr_client ws ws_exc dev dev_exc whisper))) =
           [SpeechEnded (map snd quiet1 @ map snd loud)] \<and>
         filter is_transcribe
           (trace (asr_start_audio_input np (frames_read (quiet1 @ loud @ quiet2))
                     (started_asr_client ws ws_exc dev dev_exc whisper))) =
           [Transcribe (concat (map snd quiet1 @ map snd loud))]"
proof -
  obtain p0 ps where q2: "quiet2 = p0 # ps"
    using assms(4) by (cases quiet2) auto
  have ps: "ps \<noteq> []" using assms(4) q2 by auto
  have late: "\<exists>q\<in>set ps. fst q - fst p0 > SILENCE_DURATION"
    using assms(5) q2 ps by (auto intro: bexI [of _ "last ps"])
  define s3 where "s3 = (started_asr_client ws ws_exc dev dev_exc whisper)
              \<lparr>speech_buffer := map snd quiet1 @ map snd loud, is_speaking := True,
               silence_start := Some (fst p0)\<rparr>"
  obtain rest where whole:
    "asr_start_audio_input np (frames_read (quiet1 @ loud @ quiet2))
        (started_asr_client ws ws_exc dev dev_exc whisper) = (closing s3)\<lparr>speech_buffer := rest\<rparr>"
    using one_utterance_run [OF assms(1) assms(7) assms(2) assms(3) [unfolded q2] late]
    unfolding q2 s3_def by blast
  have buf: "speech_buffer s3 = map snd quiet1 @ map snd loud"
    by (simp add: s3_def)
  have long: "\<not> int (length (speech_buffer s3)) < min_speech_frames"
    using assms(6) by (simp add: buf min_speech_frames_eq)
  obtain sent where tr: "trace (closing s3) =
      trace s3 @ [SpeechEnded (speech_buffer s3), Transcribe (concat (speech_buffer s3))] @
      map Sent sent"
    using closing_trace [OF long] by blast
  have tr3: "trace s3 = [Sent SessionUpdate, OpenStream]"
    by (simp add: s3_def started_asr_client_def)
  show ?thesis
    unfolding whole
    by (simp add: tr tr3 buf sent_is_neither)
qed

text \<open>
  Claim C6. Start the local-ASR engine, with the AI silent, and let the microphone
  deliver 5 frames at or below the energy threshold, then 10 frames above it, then 20
  frames at or below it of which the last is read more than \<open>SILENCE_DURATION\<close> after
  the first. A frame is above the threshold when \<open>calculate_energy\<close> returns more than
  \<open>ENERGY_THRESHOLD\<close> on it, whatever numpy's binary32 operations \<open>np\<close> return. The
  capture loop then ends exactly one utterance, and its buffer is the 5 frames of the
  background buffer followed by the 10 frames above the threshold; that buffer is
  handed to the transcriber, once.
\<close>

theorem five_ten_twenty_gives_one_utterance:
  assumes "length quiet1 = 5"
    and "\<forall>p\<in>set quiet1. \<not> calculate_energy np (snd p) > ENERGY_THRESHOLD"
    and "length loud = 10"
    and "\<forall>p\<in>set loud. calculate_energy np (snd p) > ENERGY_THRESHOLD"
    and "length quiet2 = 20"
    and "\<forall>p\<in>set quiet2. \<not> calculate_energy np (snd p) > ENERGY_THRESHOLD"
    and "fst (last quiet2) - fst (hd quiet2) > SILENCE_DURATION"
  shows "filter is_speech_ended
           (trace (asr_start_audio_input np (frames_read (quiet1 @ loud @ quiet2))
                     (started_asr_client ws ws_exc dev dev_exc whisper))) =
           [SpeechEnded (map snd quiet1 @ map snd loud)] \<and>
         filter is_transcribe
           (trace (asr_start_audio_input np (frames_read (quiet1 @ loud @ quiet2))
                     (started_asr_client ws ws_exc dev dev_exc whisper))) =
           [Transcribe (concat (map snd quiet1 @ map snd loud))]"
proof -
  have "2 \<le> length quiet2" "4 \<le> length quiet1 + length loud" "loud \<noteq> []"
    using assms(1,3,5) by auto
  then show ?thesis
    using one_utterance_trace [OF assms(2,4,6) _ assms(7)] by blast
qed

theorem five_ten_twenty_gives_one_utterance_witness:
  "filter is_speech_ended
     (trace (asr_start_audio_input exact_numpy
        (frames_read (frames_at 0 5 quiet_frame @ frames_at 5 15 loud_frame @
                      frames_at 15 35 quiet_frame))
        ready_asr_client)) =
     [SpeechEnded (replicate 5 quiet_frame @ replicate 10 loud_frame)] \<and>
   filter is_transcribe
     (trace (asr_start_audio_input exact_numpy
        (frames_read (frames_at 0 5 quiet_frame @ frames_at 5 15 loud_frame @
                      frames_at 15 35 quiet_frame))
        ready_asr_client)) =
     [Transcribe (concat (replicate 5 quiet_frame @ replicate 10 loud_frame))]"
proof -
  have a1: "length (frames_at 0 5 quiet_frame) = 5"
    and a3: "length (frames_at 5 15 loud_frame) = 10"
    and a5: "length (frames_at 15 35 quiet_frame) = 20"
    by (simp_all add: frames_at_def)
  have a2: "\<forall>p\<in>set (frames_at 0 5 quiet_frame).
      \<not> calculate_energy exact_numpy (snd p) > ENERGY_THRESHOLD"
    and a6: "\<forall>p\<in>set (frames_at 15 35 quiet_frame).
      \<not> calculate_energy exact_numpy (snd p) > ENERGY_THRESHOLD"
    by (simp_all add: frames_at_def quiet_frame_energy ENERGY_THRESHOLD_def)
  have a4: "\<forall>p\<in>set (frames_at 5 15 loud_frame).
      calculate_energy exact_numpy (snd p) > ENERGY_THRESHOLD"
    by (simp add: frames_at_def loud_frame_energy ENERGY_THRESHOLD_def)
  have a7: "fst (last (frames_at 15 35 quiet_frame)) - fst (hd (frames_at 15 35 quiet_frame))
      > SILENCE_DURATION"
    by (simp add: frames_at_def last_map hd_map SILENCE_DURATION_def)
  have m: "map snd (frames_at 0 5 quiet_frame) = replicate 5 quiet_frame"
    "map snd (frames_at 5 15 loud_frame) = replicate 10 loud_frame"
    by (simp_all add: frames_at_frames)
  show ?thesis
    using five_ten_twenty_gives_one_utterance [OF a1 a2 a3 a4 a5 a6 a7,
        of "\<lambda>k. False" "\<lambda>k. connection_closed" "\<lambda>k. False"
          "\<lambda>k. stream_closed" deaf_whisper]
    by (simp add: m ready_asr_client_def)
qed

section \<open>The minimum length of an utterance\<close>

lemma four_frames_pass:
  "Transcribe (f1 @ f2 @ f3 @ f4) \<in>
     set (trace (process_speech (s\<lparr>speech_buffer := [f1, f2, f3, f4]\<rparr>)))"
proof -
  obtain sent where
    "trace (process_speech (s\<lparr>speech_buffer := [f1, f2, f3, f4]\<rparr>)) =
       trace (s\<lparr>speech_buffer := [f1, f2, f3, f4]\<rparr>) @
       (if int (length (speech_buffer (s\<lparr>speech_buffer := [f1, f2, f3, f4]\<rparr>)))
            < min_speech_frames then []
        else [Transcribe (concat (speech_buffer (s\<lparr>speech_buffer := [f1, f2, f3, f4]\<rparr>)))]) @
       map Sent sent"
    using process_speech_trace by blast
  then show ?thesis
    by (simp add: min_speech_frames_eq)
qed

lemma three_frames_skipped:
  "process_speech (s\<lparr>speech_buffer := [f1, f2, f3]\<rparr>) = s\<lparr>speech_buffer := [f1, f2, f3]\<rparr>"
  by (simp add: process_speech_def min_speech_frames_eq)

text \<open>
  Claim C5. \<^verbatim>\<open>_process_speech\<close> compares the number of buffered frames with
  \<^verbatim>\<open>int(SAMPLE_RATE * MIN_SPEECH_DURATION / CHUNK_SIZE)\<close>, which is 4 (the quotient is
  4.6875). A buffer of four frames passes the test and is transcribed, whatever the
  frames are, although four chunks of 1024 samples at 16 kHz are 0.256 s of audio, less
  than \<open>MIN_SPEECH_DURATION\<close>. So does the utterance that the capture loop closes after
  four chunks of constant amplitude 1000 followed by chunks of zero samples; on these
  the arithmetic of binary32 is exact.
\<close>

theorem four_frame_utterance_is_transcribed:
  "min_speech_frames = 4 \<and>
   buffered_duration (replicate 4 loud_frame) = 256 / 1000 \<and>
   buffered_duration (replicate 4 loud_frame) < MIN_SPEECH_DURATION \<and>
   Transcribe (f1 @ f2 @ f3 @ f4) \<in>
     set (trace (process_speech (s\<lparr>speech_buffer := [f1, f2, f3, f4]\<rparr>))) \<and>
   filter is_transcribe
     (trace (asr_start_audio_input exact_numpy
        (frames_read (frames_at 0 4 loud_frame @ frames_at 4 24 quiet_frame))
        ready_asr_client)) =
     [Transcribe (concat (replicate 4 loud_frame))]"
proof -
  have d: "buffered_duration (replicate 4 loud_frame) = 256 / 1000"
    by (simp add: buffered_duration_def loud_frame_def length_concat sum_list_replicate
        SAMPLE_RATE_def)
  have q: "\<forall>p\<in>set (frames_at 4 24 quiet_frame).
      \<not> calculate_energy exact_numpy (snd p) > ENERGY_THRESHOLD"
    by (simp add: frames_at_def quiet_frame_energy ENERGY_THRESHOLD_def)
  have l: "\<forall>p\<in>set (frames_at 0 4 loud_frame). calculate_energy exact_numpy (snd p) > ENERGY_THRESHOLD"
    by (simp add: frames_at_def loud_frame_energy ENERGY_THRESHOLD_def)
  have e: "\<forall>p\<in>set ([] :: (real \<times> frame) list).
      \<not> calculate_energy exact_numpy (snd p) > ENERGY_THRESHOLD"
    by simp
  have n: "2 \<le> length (frames_at 4 24 quiet_frame)"
    "4 \<le> length ([] :: (real \<times> frame) list) + length (frames_at 0 4 loud_frame)"
    "frames_at 0 4 loud_frame \<noteq> []"
    by (simp_all add: frames_at_def)
  have t: "fst (last (frames_at 4 24 quiet_frame)) - fst (hd (frames_at 4 24 quiet_frame))
      > SILENCE_DURATION"
    by (simp add: frames_at_def last_map hd_map SILENCE_DURATION_def)
  have run: "filter is_transcribe
     (trace (asr_start_audio_input exact_numpy
        (frames_read (frames_at 0 4 loud_frame @ frames_at 4 24 quiet_frame))
        ready_asr_client)) =
     [Transcribe (concat (replicate 4 loud_frame))]"
    using one_utterance_trace [OF e l q n(1) t n(2) n(3),
        of "\<lambda>k. False" "\<lambda>k. connection_closed" "\<lambda>k. False" "\<lambda>k. stream_closed"
          deaf_whisper]
    by (simp add: ready_asr_client_def frames_at_frames)
  show ?thesis
    using d run four_frames_pass [of f1 f2 f3 f4 s]
    by (simp add: min_speech_frames_eq MIN_SPEECH_DURATION_def)
qed

section \<open>The background buffer\<close>

lemma frames_at_length: "length (frames_at i j f) = j - i"
  by (simp add: frames_at_def)

text \<open>
  Claim C7, as the code has it. While no utterance is under way and the AI is silent,
  every frame on which \<open>calculate_energy\<close> does not return more than
  \<open>ENERGY_THRESHOLD\<close>, whatever numpy's binary32 operations \<open>np\<close> return, is appended to
  \<open>speech_buffer\<close> and none is removed: after such frames the buffer is the old buffer
  followed by all of them, so its length grows by their number.
\<close>

theorem background_buffer_keeps_every_frame:
  assumes "is_running s" and "\<not> is_ai_speaking s" and "\<not> is_speaking s"
    and "\<forall>p\<in>set ps. \<not> calculate_energy np (snd p) > ENERGY_THRESHOLD"
  shows "speech_buffer (asr_start_audio_input np (frames_read ps) s) =
           speech_buffer s @ map snd ps \<and>
         length (speech_buffer (asr_start_audio_input np (frames_read ps) s)) =
           length (speech_buffer s) + length ps"
  using quiet_frames_accumulate [OF assms] by simp

theorem background_buffer_keeps_every_frame_witness:
  "is_running ready_asr_client \<and> \<not> is_ai_speaking ready_asr_client \<and>
   \<not> is_speaking ready_asr_client \<and>
   speech_buffer (asr_start_audio_input exact_numpy (frames_read (frames_at 0 1000 quiet_frame))
     ready_asr_client) = replicate 1000 quiet_frame \<and>
   length (speech_buffer (asr_start_audio_input exact_numpy (frames_read (frames_at 0 1000 quiet_frame))
     ready_asr_client)) = 1000"
proof -
  have a: "is_running ready_asr_client" and b: "\<not> is_ai_speaking ready_asr_client"
    and c: "\<not> is_speaking ready_asr_client"
    by (simp_all add: ready_asr_client_def started_asr_client_def)
  have q: "\<forall>p\<in>set (frames_at 0 1000 quiet_frame).
      \<not> calculate_energy exact_numpy (snd p) > ENERGY_THRESHOLD"
    by (simp add: frames_at_def quiet_frame_energy ENERGY_THRESHOLD_def)
  have e: "speech_buffer ready_asr_client = []"
    by (simp add: ready_asr_client_def started_asr_client_def)
  show ?thesis
    using background_buffer_keeps_every_frame [OF a b c q] a b c
    by (simp add: e frames_at_frames frames_at_length)
qed

text \<open>
  The claim as stated fails: no number bounds the frames the buffer retains. After
  \<open>n\<close> chunks of zero samples, on which the arithmetic of binary32 is exact, the buffer
  of a freshly started engine holds \<open>n\<close> frames.
\<close>

theorem background_buffer_is_unbounded:
  "\<not> (\<exists>bound. \<forall>n.
        length (speech_buffer (asr_start_audio_input exact_numpy (frames_read (frames_at 0 n quiet_frame))
          ready_asr_client)) \<le> bound)"
proof -
  have a: "is_running ready_asr_client" and b: "\<not> is_ai_speaking ready_asr_client"
    and c: "\<not> is_speaking ready_asr_client"
    by (simp_all add: ready_asr_client_def started_asr_client_def)
  have e: "speech_buffer ready_asr_client = []"
    by (simp add: ready_asr_client_def started_asr_client_def)
  have len: "length (speech_buffer (asr_start_audio_input exact_numpy
        (frames_read (frames_at 0 n quiet_frame)) ready_asr_client)) = n" for n
  proof -
    have q: "\<forall>p\<in>set (frames_at 0 n quiet_frame).
        \<not> calculate_energy exact_numpy (snd p) > ENERGY_THRESHOLD"
      by (simp add: frames_at_def quiet_frame_energy ENERGY_THRESHOLD_def)
    show ?thesis
      using quiet_frames_accumulate [OF a b c q] by (simp add: e frames_at_length)
  qed
  show ?thesis
  proof
    assume "\<exists>bound. \<forall>n.
        length (speech_buffer (asr_start_audio_input exact_numpy (frames_read (frames_at 0 n quiet_frame))
          ready_asr_client)) \<le> bound"
    then obtain bound :: nat where "\<forall>n::nat. n \<le> bound"
      unfolding len by blast
    then have "Suc bound \<le> bound" by blast
    then show False by simp
  qed
qed

section \<open>The end-conversation tool call\<close>












section \<open>The tool dispatcher\<close>

lemma lookup_function_cases:
  "lookup_function function_name = None \<longleftrightarrow>
     function_name \<notin> {Some ''end_conversation'', Some ''get_weather'',
                        Some ''query_menu'', Some ''search_books''}"
  by (cases function_name) (auto simp: lookup_function_def FUNCTION_MAP_def)

text \<open>
  Claim C9. For every function name and every arguments value, \<open>execute_function\<close>
  returns a value and raises nothing. A name outside the registry gives the object
  whose \<open>error\<close> field is the unknown-function text followed by the name. When the call
  of the registered tool raises, whatever the exception, the result is the object whose
  \<open>error\<close> field is the execution-error text followed by \<^verbatim>\<open>str(e)\<close>; a keyword that
  the tool does not take is such an exception (shown for \<open>get_weather\<close>).
\<close>

theorem execute_function_never_raises:
  "(\<exists>r. execute_function env function_name arguments = Inr r) \<and>
   (function_name \<notin> {Some ''end_conversation'', Some ''get_weather'',
                       Some ''query_menu'', Some ''search_books''} \<longrightarrow>
      execute_function env function_name arguments =
        Inr (JObj [(''error'', JStr (unknown_function_text @ name_text function_name))])) \<and>
   (\<forall>func e. lookup_function function_name = Some func \<and>
        call_with (name_text function_name) func env arguments = Inl e \<longrightarrow>
      execute_function env function_name arguments =
        Inr (JObj [(''error'', JStr (execution_error_text @ exc_str e))])) \<and>
   (\<forall>k v. k \<notin> {''location'', ''date''} \<longrightarrow>
      call_with ''get_weather'' get_weather env (JObj [(k, v)]) = Inl (unexpected_keyword ''get_weather'' k))"
proof (intro conjI allI impI)
  show "\<exists>r. execute_function env function_name arguments = Inr r"
    by (simp add: execute_function_def try_except_def split: option.split sum.split)
next
  assume "function_name \<notin> {Some ''end_conversation'', Some ''get_weather'',
                       Some ''query_menu'', Some ''search_books''}"
  then have "lookup_function function_name = None"
    by (simp add: lookup_function_cases)
  then show "execute_function env function_name arguments =
        Inr (JObj [(''error'', JStr (unknown_function_text @ name_text function_name))])"
    by (simp add: execute_function_def unknown_function_result_def)
next
  fix func e
  assume "lookup_function function_name = Some func \<and> call_with (name_text function_name) func env arguments = Inl e"
  then show "execute_function env function_name arguments =
        Inr (JObj [(''error'', JStr (execution_error_text @ exc_str e))])"
    by (simp add: execute_function_def try_except_def execution_error_result_def)
next
  fix k :: string and v
  assume "k \<notin> {''location'', ''date''}"
  then show "call_with ''get_weather'' get_weather env (JObj [(k, v)]) =
      Inl (unexpected_keyword ''get_weather'' k)"
    by (simp add: call_with_def get_weather_def bind_keywords_def)
qed

theorem execute_function_never_raises_witness:
  "execute_function sample_tool_env (Some ''order_pizza'') (JObj []) =
     Inr (JObj [(''error'', JStr (unknown_function_text @ ''order_pizza''))]) \<and>
   execute_function sample_tool_env (Some ''get_weather'') (JObj [(''city'', JStr ''Paris'')]) =
     Inr (JObj [(''error'', JStr (execution_error_text @
        ''get_weather() got an unexpected keyword argument '' @
        [CHR 0x27] @ ''city'' @ [CHR 0x27]))])"
proof -
  have a: "Some ''order_pizza'' \<notin> {Some ''end_conversation'', Some ''get_weather'',
                       Some ''query_menu'', Some ''search_books''}"
    by simp
  have b: "''city'' \<notin> {''location'', ''date''}" by simp
  have l: "lookup_function (Some ''get_weather'') = Some get_weather"
    by (simp add: lookup_function_def FUNCTION_MAP_def)
  note t1 = execute_function_never_raises
    [of sample_tool_env "Some ''order_pizza''" "JObj []"]
  note t2 = execute_function_never_raises
    [of sample_tool_env "Some ''get_weather''" "JObj [(''city'', JStr ''Paris'')]"]
  have 1: "execute_function sample_tool_env (Some ''order_pizza'') (JObj []) =
     Inr (JObj [(''error'', JStr (unknown_function_text @ ''order_pizza''))])"
    using t1 [THEN conjunct2, THEN conjunct1, rule_format, OF a]
    by (simp add: name_text_def)
  have c: "call_with ''get_weather'' get_weather sample_tool_env (JObj [(''city'', JStr ''Paris'')]) =
     Inl (unexpected_keyword ''get_weather'' ''city'')"
    using t2 [THEN conjunct2, THEN conjunct2, THEN conjunct2, rule_format, OF b] .
  have 2: "execute_function sample_tool_env (Some ''get_weather'')
        (JObj [(''city'', JStr ''Paris'')]) =
     Inr (JObj [(''error'', JStr (execution_error_text @
        exc_str (unexpected_keyword ''get_weather'' ''city'')))])"
    using t2 [THEN conjunct2, THEN conjunct2, THEN conjunct1, rule_format, OF conjI, OF l]
      c by (simp add: name_text_def)
  show ?thesis using 1 2 by (simp add: unexpected_keyword_def)
qed

section \<open>A cancel request that cannot be sent\<close>

text \<open>
  Claim C10. Let the polling loop of \<^verbatim>\<open>keyboard_listener\<close> find the interrupt flag
  raised, and let the send of \<^verbatim>\<open>response.cancel\<close> raise. Then the pass ends with
  \<open>drop_audio_until_cancelled\<close> cleared (and the interrupt flag and the speaking flag
  cleared). Nothing was sent, and the output stream and the trace are those the stream
  rebuild left: the teardown is kept. A later \<^verbatim>\<open>response.audio.delta\<close> with a payload,
  on a stream that accepts the write, is then written to the device, by the handler of
  either file.
\<close>

theorem failed_cancel_clears_suppress_flag:
  assumes "is_running s" and "interrupt_flag s" and "ws_raises s (ws_calls s)"
  shows "\<not> drop_audio_until_cancelled (keyboard_poll s) \<and>
         \<not> interrupt_flag (keyboard_poll s) \<and> \<not> is_ai_speaking (keyboard_poll s) \<and>
         trace (keyboard_poll s) =
           (if output_stream s \<noteq> None then trace (rebuild_output_stream s) else trace s) \<and>
         output_stream (keyboard_poll s) =
           (if output_stream s \<noteq> None then output_stream (rebuild_output_stream s) else None) \<and>
         (\<forall>tenv e audio_data.
            ev_type e = Some ''response.audio.delta'' \<and> ev_delta e \<noteq> [] \<and>
            ev_audio e = Inr audio_data \<and> output_stream s \<noteq> None \<and>
            \<not> dev_raises (keyboard_poll s) (dev_calls (keyboard_poll s)) \<longrightarrow>
            trace (state_of (handle_message tenv e (keyboard_poll s))) =
              trace (keyboard_poll s) @ [Written audio_data] \<and>
            trace (state_of (asr_handle_message tenv e (keyboard_poll s))) =
              trace (keyboard_poll s) @ [Written audio_data])"
proof -
  define s1 where "s1 = s\<lparr>drop_audio_until_cancelled := True, is_ai_speaking := False\<rparr>"
  define s2 where "s2 = (if output_stream s \<noteq> None then rebuild_output_stream s1 else s1)"
  have poll: "keyboard_poll s = (send_cancel s2)\<lparr>interrupt_flag := False\<rparr>"
    using assms(1,2) by (simp add: keyboard_poll_def handle_interrupt_unfold s2_def s1_def)
  have raises: "ws_raises s2 (ws_calls s2)"
    using assms(3) by (simp add: s2_def s1_def rebuild_keeps_connection)
  have after: "keyboard_poll s =
      s2\<lparr>ws_calls := Suc (ws_calls s2), drop_audio_until_cancelled := False,
         interrupt_flag := False\<rparr>"
    by (simp add: poll send_cancel_raises [OF raises])
  have speaking: "\<not> is_ai_speaking s2"
    by (simp add: s2_def s1_def rebuild_keeps_flags)
  have tr: "trace s2 = (if output_stream s \<noteq> None then trace (rebuild_output_stream s) else trace s)"
    by (simp add: s2_def s1_def rebuild_output_stream_def dev_call_def)
  have os: "output_stream s2 =
      (if output_stream s \<noteq> None then output_stream (rebuild_output_stream s) else None)"
    by (simp add: s2_def s1_def rebuild_output_stream_def dev_call_def)
  have present: "output_stream s \<noteq> None \<Longrightarrow> output_stream (keyboard_poll s) \<noteq> None"
    by (simp add: after s2_def rebuild_keeps_presence s1_def)
  have played: "trace (state_of (handle_message tenv e (keyboard_poll s))) =
              trace (keyboard_poll s) @ [Written audio_data] \<and>
            trace (state_of (asr_handle_message tenv e (keyboard_poll s))) =
              trace (keyboard_poll s) @ [Written audio_data]"
    if "ev_type e = Some ''response.audio.delta'' \<and> ev_delta e \<noteq> [] \<and>
            ev_audio e = Inr audio_data \<and> output_stream s \<noteq> None \<and>
            \<not> dev_raises (keyboard_poll s) (dev_calls (keyboard_poll s))"
    for tenv e audio_data
  proof -
    have nd: "\<not> drop_audio_until_cancelled (keyboard_poll s)"
      by (simp add: after)
    have "trace (state_of (audio_delta e (keyboard_poll s))) =
            trace (keyboard_poll s) @ [Written audio_data]"
      using that nd present by (simp add: audio_delta_def dev_call_def)
    then show ?thesis
      using that by (simp add: handle_message_def asr_handle_message_def)
  qed
  show ?thesis
    using played by (simp add: after speaking tr os)
qed

theorem failed_cancel_clears_suppress_flag_witness:
  "is_running cut_off_client \<and> interrupt_flag cut_off_client \<and>
   ws_raises cut_off_client (ws_calls cut_off_client) \<and>
   \<not> drop_audio_until_cancelled (keyboard_poll cut_off_client) \<and>
   trace (keyboard_poll cut_off_client) =
     [Sent SessionUpdate, OpenStream, StopStream, CloseStream, OpenStream] \<and>
   trace (state_of (handle_message sample_tool_env
            (audio_delta_event ''AAEC'' [CHR 0x00, CHR 0x01, CHR 0x02])
            (keyboard_poll cut_off_client))) =
     [Sent SessionUpdate, OpenStream, StopStream, CloseStream, OpenStream,
      Written [CHR 0x00, CHR 0x01, CHR 0x02]]"
proof -
  have a: "is_running cut_off_client" and b: "interrupt_flag cut_off_client"
    and c: "ws_raises cut_off_client (ws_calls cut_off_client)"
    by (simp_all add: cut_off_client_def started_client_def new_client_def)
  note t = failed_cancel_clears_suppress_flag [OF a b c]
  have os: "output_stream cut_off_client \<noteq> None"
    by (simp add: cut_off_client_def started_client_def new_client_def)
  have rb: "trace (rebuild_output_stream cut_off_client) =
      [Sent SessionUpdate, OpenStream, StopStream, CloseStream, OpenStream]"
    by (simp add: cut_off_client_def started_client_def new_client_def
        rebuild_output_stream_def dev_call_def)
  have tr: "trace (keyboard_poll cut_off_client) =
      [Sent SessionUpdate, OpenStream, StopStream, CloseStream, OpenStream]"
    using t os rb by simp
  have dv: "\<not> dev_raises (keyboard_poll cut_off_client) (dev_calls (keyboard_poll cut_off_client))"
    by (simp add: cut_off_client_def started_client_def new_client_def keyboard_poll_def
        handle_interrupt_unfold send_cancel_def ws_send_def rebuild_output_stream_def dev_call_def)
  have ev: "ev_type (audio_delta_event ''AAEC'' [CHR 0x00, CHR 0x01, CHR 0x02]) =
        Some ''response.audio.delta'' \<and>
      ev_delta (audio_delta_event ''AAEC'' [CHR 0x00, CHR 0x01, CHR 0x02]) \<noteq> [] \<and>
      ev_audio (audio_delta_event ''AAEC'' [CHR 0x00, CHR 0x01, CHR 0x02]) =
        Inr [CHR 0x00, CHR 0x01, CHR 0x02]"
    by (simp add: audio_delta_event_def blank_event_def)
  have pl: "trace (state_of (handle_message sample_tool_env
            (audio_delta_event ''AAEC'' [CHR 0x00, CHR 0x01, CHR 0x02])
            (keyboard_poll cut_off_client))) =
      trace (keyboard_poll cut_off_client) @ [Written [CHR 0x00, CHR 0x01, CHR 0x02]]"
    using t [THEN conjunct2, THEN conjunct2, THEN conjunct2, THEN conjunct2, THEN conjunct2,
        rule_format, of "audio_delta_event ''AAEC'' [CHR 0x00, CHR 0x01, CHR 0x02]"
          "[CHR 0x00, CHR 0x01, CHR 0x02]" sample_tool_env] ev os dv
    by simp
  show ?thesis
    using a b c t tr pl by simp
qed

end
